theory Spec2Isabelle
  imports Complex_Main "HOL-Library.AList"
begin

section \<open>Python values used by the streamlines module\<close>

text \<open>
  Exceptions raised by \<^verbatim>\<open>nibabel/streamlines/tractogram.py\<close> and by the library calls it
  makes. A function that can raise returns \<open>pyerr + 'a\<close>, with \<open>Inl\<close> for the exception.
\<close>

datatype pyerr =
    KeyError | TypeError | ValueError | IndexError | NameError
  | NotImplementedError | LinAlgError

text \<open>
  Objects used between the square brackets of \<^verbatim>\<open>d[key]\<close>: a name, an integer position,
  or a slice \<^verbatim>\<open>lo:hi\<close> (either bound may be absent).
\<close>

datatype pykey = KStr string | KInt int | KSlice "int option" "int option"

text \<open>A slice object cannot be hashed, so it can never be a key of a builtin dict.\<close>

fun hashable :: "pykey \<Rightarrow> bool" where
  "hashable (KStr s) = True"
| "hashable (KInt i) = True"
| "hashable (KSlice lo hi) = False"

text \<open>
  The builtin dict \<^verbatim>\<open>self.store\<close>, as an association list in insertion order.
  \<^verbatim>\<open>store[key]\<close> raises TypeError for an unhashable key and KeyError for a missing one.
\<close>

type_synonym 'v pydict = "(pykey \<times> 'v) list"

definition store_get :: "'v pydict \<Rightarrow> pykey \<Rightarrow> pyerr + 'v" where
  "store_get s k =
     (if \<not> hashable k then Inl TypeError
      else case map_of s k of None \<Rightarrow> Inl KeyError | Some v \<Rightarrow> Inr v)"

definition store_set :: "'v pydict \<Rightarrow> pykey \<Rightarrow> 'v \<Rightarrow> pyerr + 'v pydict" where
  "store_set s k v = (if \<not> hashable k then Inl TypeError else Inr (AList.update k v s))"

text \<open>
  What every builtin dict satisfies: no key occurs twice and every key is hashable.
\<close>

definition wf_store :: "'v pydict \<Rightarrow> bool" where
  "wf_store s = (distinct (map fst s) \<and> list_all (\<lambda>(k, v). hashable k) s)"

subsection \<open>Arrays of the numerical library\<close>

text \<open>
  An element of an array: a number, or \<^verbatim>\<open>None\<close>, which only the generic object type
  holds.
\<close>

datatype item = Num real | Obj

fun is_num :: "item \<Rightarrow> bool" where
  "is_num (Num x) = True"
| "is_num Obj = False"

text \<open>
  An n-dimensional array: its shape, whether its element type is the generic object type
  (an array of that type may hold numbers only, all the same), and its elements in
  row-major order.
\<close>

record ndarray =
  shape :: "nat list"
  dtype_object :: bool
  flat :: "item list"

definition ndim :: "ndarray \<Rightarrow> nat" where
  "ndim a = length (shape a)"

text \<open>\<^verbatim>\<open>len(a)\<close> of an array with at least one axis is the extent of the first axis.\<close>

definition len_array :: "ndarray \<Rightarrow> nat" where
  "len_array a = hd (shape a)"

text \<open>
  \<^verbatim>\<open>np.asarray(list(value))\<close>. Iterating an array without axes raises TypeError. An array
  whose first axis is empty gives the empty list, which becomes an empty one-dimensional
  numeric array. A one-dimensional array gives the list of its elements, and the element
  type of the new array is found again from them: numeric when all of them are numbers,
  the object type as soon as one is \<^verbatim>\<open>None\<close>. With more axes the entries of the list are
  arrays, which are stacked back with the element type they have.
\<close>

definition asarray_list :: "ndarray \<Rightarrow> pyerr + ndarray" where
  "asarray_list v =
     (if shape v = [] then Inl TypeError
      else if hd (shape v) = 0 then Inr \<lparr>shape = [0], dtype_object = False, flat = []\<rparr>
      else if length (shape v) = 1
      then Inr (v\<lparr>dtype_object := \<not> list_all is_num (flat v)\<rparr>)
      else Inr v)"

text \<open>Bounds of a slice \<^verbatim>\<open>lo:hi\<close> over an axis of extent \<open>n\<close>, as Python clamps them.\<close>

definition slice_bound :: "nat \<Rightarrow> int option \<Rightarrow> nat \<Rightarrow> nat" where
  "slice_bound n b dflt =
     (case b of None \<Rightarrow> dflt
      | Some i \<Rightarrow> if i < 0 then nat (max 0 (i + int n)) else min (nat i) n)"

text \<open>
  \<^verbatim>\<open>v[idx]\<close> on an array: a name is not a valid index (IndexError); an integer selects
  one entry of the first axis, counting from the end when negative, IndexError out of range;
  a slice keeps a contiguous run of the first axis.
\<close>

fun np_getitem :: "ndarray \<Rightarrow> pykey \<Rightarrow> pyerr + ndarray" where
  "np_getitem v (KStr s) = Inl IndexError"
| "np_getitem v (KInt i) =
     (if shape v = [] then Inl IndexError
      else let n = int (hd (shape v)); j = (if i < 0 then i + n else i);
               m = prod_list (tl (shape v))
           in if 0 \<le> j \<and> j < n
              then Inr \<lparr>shape = tl (shape v), dtype_object = dtype_object v,
                        flat = take m (drop (nat j * m) (flat v))\<rparr>
              else Inl IndexError)"
| "np_getitem v (KSlice lo hi) =
     (if shape v = [] then Inl IndexError
      else let n = hd (shape v); start = slice_bound n lo 0; stop = slice_bound n hi n;
               k = stop - start; m = prod_list (tl (shape v))
           in Inr \<lparr>shape = k # tl (shape v), dtype_object = dtype_object v,
                   flat = take (k * m) (drop (start * m) (flat v))\<rparr>)"

section \<open>Auxiliary data dictionaries\<close>

subsection \<open>SliceableDataDict\<close>

text \<open>
  The result of \<^verbatim>\<open>SliceableDataDict.__getitem__\<close>: either the value stored under the key,
  or a new dictionary of the same class holding every value re-indexed.
\<close>

datatype ('v, 'd) getres = Stored 'v | Sliced 'd

text \<open>
  The loop \<^verbatim>\<open>for k, v in self.items(): new_dict[k] = v[idx]\<close>. The first exception of
  \<^verbatim>\<open>v[idx]\<close> or of the class's \<^verbatim>\<open>__setitem__\<close> ends the loop.
\<close>

fun reindex_items ::
  "('d \<Rightarrow> pykey \<Rightarrow> 'w \<Rightarrow> pyerr + 'd) \<Rightarrow> ('v \<Rightarrow> pykey \<Rightarrow> pyerr + 'w) \<Rightarrow> pykey \<Rightarrow>
   'v pydict \<Rightarrow> 'd \<Rightarrow> pyerr + 'd" where
  "reindex_items setitem vindex idx [] new_dict = Inr new_dict"
| "reindex_items setitem vindex idx ((k, v) # kvs) new_dict =
     (case vindex v idx of
        Inl e \<Rightarrow> Inl e
      | Inr w \<Rightarrow> (case setitem new_dict k w of
                   Inl e \<Rightarrow> Inl e
                 | Inr d \<Rightarrow> reindex_items setitem vindex idx kvs d))"

text \<open>
  \<^verbatim>\<open>SliceableDataDict.__getitem__\<close>, for a subclass whose empty instance
  \<^verbatim>\<open>type(self)(None)\<close> is \<open>new_dict\<close>, whose \<^verbatim>\<open>__setitem__\<close> is \<open>setitem\<close> and whose
  values are indexed by \<open>vindex\<close>. The first \<^verbatim>\<open>try\<close> returns \<^verbatim>\<open>self.store[key]\<close> and
  swallows KeyError and TypeError; the second swallows only TypeError; the last line looks
  the key up again so that its error is the one raised.
\<close>

definition SliceableDataDict_getitem ::
  "'d \<Rightarrow> ('d \<Rightarrow> pykey \<Rightarrow> 'w \<Rightarrow> pyerr + 'd) \<Rightarrow> ('v \<Rightarrow> pykey \<Rightarrow> pyerr + 'w) \<Rightarrow>
   'v pydict \<Rightarrow> pykey \<Rightarrow> pyerr + ('v, 'd) getres" where
  "SliceableDataDict_getitem new_dict setitem vindex store key =
     (case store_get store key of
        Inr v \<Rightarrow> Inr (Stored v)
      | Inl e0 \<Rightarrow>
         (case reindex_items setitem vindex key store new_dict of
            Inr d \<Rightarrow> Inr (Sliced d)
          | Inl e \<Rightarrow>
             (if e = TypeError
              then (case store_get store key of Inr v \<Rightarrow> Inr (Stored v) | Inl e1 \<Rightarrow> Inl e1)
              else Inl e)))"

subsection \<open>PerArrayDict\<close>

record PerArrayDict =
  n_elements :: "nat option"
  store :: "ndarray pydict"

text \<open>\<^verbatim>\<open>PerArrayDict(n_elements)\<close> with no further argument: an empty store.\<close>

definition PerArrayDict_init :: "nat option \<Rightarrow> PerArrayDict" where
  "PerArrayDict_init n = \<lparr>n_elements = n, store = []\<rparr>"

text \<open>
  \<^verbatim>\<open>PerArrayDict.__setitem__\<close> up to its last line: the array that will be stored. After
  the conversion, a one-dimensional array whose element type is not the object type is
  reshaped to a column; then anything that is not two-dimensional is rejected, then a
  wrong number of rows.
\<close>

definition PerArrayDict_value :: "nat option \<Rightarrow> ndarray \<Rightarrow> pyerr + ndarray" where
  "PerArrayDict_value n value0 =
     (case asarray_list value0 of
        Inl e \<Rightarrow> Inl e
      | Inr value1 \<Rightarrow>
         (let value = (if ndim value1 = 1 \<and> \<not> dtype_object value1
                       then value1\<lparr>shape := [len_array value1, 1]\<rparr> else value1)
          in if ndim value \<noteq> 2 then Inl ValueError
             else if n \<noteq> None \<and> len_array value \<noteq> the n then Inl ValueError
             else Inr value))"

text \<open>The last line, \<^verbatim>\<open>self.store[key] = value\<close>, is the only one that writes.\<close>

definition PerArrayDict_setitem ::
  "PerArrayDict \<Rightarrow> pykey \<Rightarrow> ndarray \<Rightarrow> pyerr + PerArrayDict" where
  "PerArrayDict_setitem self key value0 =
     (case PerArrayDict_value (n_elements self) value0 of
        Inl e \<Rightarrow> Inl e
      | Inr value \<Rightarrow>
         (case store_set (store self) key value of
            Inl e \<Rightarrow> Inl e
          | Inr s \<Rightarrow> Inr (self\<lparr>store := s\<rparr>)))"

text \<open>
  \<^verbatim>\<open>PerArrayDict\<close> inherits \<^verbatim>\<open>__getitem__\<close>; \<^verbatim>\<open>type(self)(None)\<close> is a
  \<^verbatim>\<open>PerArrayDict\<close> without element count.
\<close>

definition PerArrayDict_getitem ::
  "PerArrayDict \<Rightarrow> pykey \<Rightarrow> pyerr + (ndarray, PerArrayDict) getres" where
  "PerArrayDict_getitem self key =
     SliceableDataDict_getitem (PerArrayDict_init None) PerArrayDict_setitem np_getitem
       (store self) key"

text \<open>
  What one pass of the loop of \<^verbatim>\<open>__getitem__\<close> stores for a value \<open>v\<close> of a
  \<^verbatim>\<open>PerArrayDict\<close>: \<^verbatim>\<open>v[idx]\<close>, then the conversion and the checks of
  \<^verbatim>\<open>__setitem__\<close> in the new dictionary, which has no element count.
\<close>

definition reindexed :: "pykey \<Rightarrow> ndarray \<Rightarrow> pyerr + ndarray" where
  "reindexed idx v =
     (case np_getitem v idx of
        Inl e \<Rightarrow> Inl e
      | Inr w \<Rightarrow> PerArrayDict_value None w)"


subsection \<open>LazyDict\<close>

text \<open>
  What can be assigned into a \<^verbatim>\<open>LazyDict\<close>: \<^verbatim>\<open>None\<close>, a callable (a generator function,
  called without argument), or any other object, which is not callable.
\<close>

datatype 'g pyvalue = PyNone | PyCallable "unit \<Rightarrow> 'g" | PyOther

fun callable :: "'g pyvalue \<Rightarrow> bool" where
  "callable (PyCallable f) = True"
| "callable PyNone = False"
| "callable PyOther = False"

record 'g LazyDict =
  lazy_store :: "'g pyvalue pydict"

text \<open>\<^verbatim>\<open>LazyDict.__setitem__\<close>: only a value that is neither None nor callable is refused.\<close>

definition LazyDict_setitem :: "'g LazyDict \<Rightarrow> pykey \<Rightarrow> 'g pyvalue \<Rightarrow> pyerr + 'g LazyDict" where
  "LazyDict_setitem self key value =
     (if value \<noteq> PyNone \<and> \<not> callable value then Inl TypeError
      else (case store_set (lazy_store self) key value of
              Inl e \<Rightarrow> Inl e
            | Inr s \<Rightarrow> Inr (self\<lparr>lazy_store := s\<rparr>)))"

text \<open>Calling a Python object without argument: only a callable can be called.\<close>

fun py_call :: "'g pyvalue \<Rightarrow> pyerr + 'g" where
  "py_call (PyCallable f) = Inr (f ())"
| "py_call PyNone = Inl TypeError"
| "py_call PyOther = Inl TypeError"

text \<open>\<^verbatim>\<open>LazyDict.__getitem__\<close>: \<^verbatim>\<open>return self.store[key]()\<close>.\<close>

definition LazyDict_getitem :: "'g LazyDict \<Rightarrow> pykey \<Rightarrow> pyerr + 'g" where
  "LazyDict_getitem self key =
     (case store_get (lazy_store self) key of
        Inl e \<Rightarrow> Inl e
      | Inr f \<Rightarrow> py_call f)"

text \<open>
  Positional arguments given to the constructor of a data dictionary: \<^verbatim>\<open>None\<close>, a
  \<^verbatim>\<open>LazyDict\<close>, a builtin dict, or any other object (one that is not iterable, where the
  constructor looks at it at all).
\<close>

datatype 'g pyarg = ArgNone | ArgLazyDict "'g LazyDict" | ArgDict "'g pyvalue pydict" | ArgObject

text \<open>
  \<^verbatim>\<open>self.update(other)\<close> of the mapping base class: one \<^verbatim>\<open>self[key] = other[key]\<close> per
  key, in order, ending at the first exception.
\<close>

fun LazyDict_update :: "'g LazyDict \<Rightarrow> 'g pyvalue pydict \<Rightarrow> pyerr + 'g LazyDict" where
  "LazyDict_update self [] = Inr self"
| "LazyDict_update self ((k, v) # kvs) =
     (case LazyDict_setitem self k v of
        Inl e \<Rightarrow> Inl e
      | Inr d \<Rightarrow> LazyDict_update d kvs)"

text \<open>Keyword expansion \<^verbatim>\<open>**mapping\<close> raises TypeError unless every key is a string.\<close>

fun is_str :: "pykey \<Rightarrow> bool" where
  "is_str (KStr s) = True"
| "is_str (KInt i) = False"
| "is_str (KSlice lo hi) = False"

definition LazyDict_update_kwargs :: "'g LazyDict \<Rightarrow> 'g pyvalue pydict \<Rightarrow> pyerr + 'g LazyDict" where
  "LazyDict_update_kwargs self kw =
     (if list_all (\<lambda>(k, v). is_str k) kw then LazyDict_update self kw else Inl TypeError)"

text \<open>
  The builtin \<^verbatim>\<open>dict(*args)\<close> as the constructors call it: no argument gives the empty
  dict, a dict is copied, \<^verbatim>\<open>None\<close> and other non-iterable objects raise TypeError, a
  \<^verbatim>\<open>LazyDict\<close> is read through its \<^verbatim>\<open>__getitem__\<close> (each producer is called; what it
  returns is not callable), and more than one positional argument raises TypeError.
\<close>

fun called_values :: "'g pyvalue pydict \<Rightarrow> pyerr + 'g pyvalue pydict" where
  "called_values [] = Inr []"
| "called_values ((k, v) # kvs) =
     (case py_call v of
        Inl e \<Rightarrow> Inl e
      | Inr g \<Rightarrow> (case called_values kvs of
                   Inl e \<Rightarrow> Inl e
                 | Inr r \<Rightarrow> Inr ((k, PyOther) # r)))"

fun py_dict :: "'g pyarg list \<Rightarrow> pyerr + 'g pyvalue pydict" where
  "py_dict [] = Inr []"
| "py_dict [ArgDict m] = Inr m"
| "py_dict [ArgNone] = Inl TypeError"
| "py_dict [ArgObject] = Inl TypeError"
| "py_dict [ArgLazyDict d] = called_values (lazy_store d)"
| "py_dict (a # b # rest) = Inl TypeError"

text \<open>
  \<^verbatim>\<open>SliceableDataDict.__init__\<close> as \<^verbatim>\<open>LazyDict\<close> inherits it (keyword arguments are
  empty at every call of this module): with a number of positional arguments other than
  one, \<^verbatim>\<open>self.update(dict(*args))\<close>; with \<^verbatim>\<open>None\<close>, nothing; with a data dictionary,
  \<^verbatim>\<open>self.update(**args[0])\<close>; otherwise \<^verbatim>\<open>self.update(dict(args[0]))\<close>.
\<close>

definition SliceableDataDict_init :: "'g pyarg list \<Rightarrow> pyerr + 'g LazyDict" where
  "SliceableDataDict_init args =
     (let self = \<lparr>lazy_store = []\<rparr> in
      if length args \<noteq> 1
      then (case py_dict args of Inl e \<Rightarrow> Inl e | Inr m \<Rightarrow> LazyDict_update self m)
      else (case hd args of
              ArgNone \<Rightarrow> Inr self
            | ArgLazyDict d \<Rightarrow>
                (case called_values (lazy_store d) of
                   Inl e \<Rightarrow> Inl e
                 | Inr m \<Rightarrow> LazyDict_update_kwargs self m)
            | a \<Rightarrow> (case py_dict [a] of Inl e \<Rightarrow> Inl e | Inr m \<Rightarrow> LazyDict_update self m)))"

text \<open>
  \<^verbatim>\<open>LazyDict.__init__\<close>: a single \<^verbatim>\<open>LazyDict\<close> argument has its producers copied;
  everything else goes to the base class.
\<close>

definition LazyDict_init :: "'g pyarg list \<Rightarrow> pyerr + 'g LazyDict" where
  "LazyDict_init args =
     (case args of
        [ArgLazyDict d] \<Rightarrow> LazyDict_update_kwargs \<lparr>lazy_store = []\<rparr> (lazy_store d)
      | _ \<Rightarrow> SliceableDataDict_init args)"

section \<open>Affine matrices and points\<close>

text \<open>
  A 4x4 array of floating-point numbers, row by row. A floating-point number is the real
  number it stands for. What the numerical library computes from such numbers is rounded
  and is not fixed here (see the record \<open>numerics\<close> below); the functions of this section
  are the exact operations of linear algebra, which the statements compare with.
\<close>

datatype mat4 =
  Mat4 real real real real  real real real real  real real real real  real real real real

text \<open>The identity matrix.\<close>

definition eye4 :: mat4 where
  "eye4 = Mat4 1 0 0 0  0 1 0 0  0 0 1 0  0 0 0 1"

text \<open>\<^verbatim>\<open>np.eye(4)\<close> has these sixteen entries exactly. The exact matrix product:\<close>

fun mat_mul :: "mat4 \<Rightarrow> mat4 \<Rightarrow> mat4" where
  "mat_mul (Mat4 a00 a01 a02 a03 a10 a11 a12 a13 a20 a21 a22 a23 a30 a31 a32 a33)
           (Mat4 b00 b01 b02 b03 b10 b11 b12 b13 b20 b21 b22 b23 b30 b31 b32 b33) =
     Mat4 (a00*b00 + a01*b10 + a02*b20 + a03*b30) (a00*b01 + a01*b11 + a02*b21 + a03*b31)
          (a00*b02 + a01*b12 + a02*b22 + a03*b32) (a00*b03 + a01*b13 + a02*b23 + a03*b33)
          (a10*b00 + a11*b10 + a12*b20 + a13*b30) (a10*b01 + a11*b11 + a12*b21 + a13*b31)
          (a10*b02 + a11*b12 + a12*b22 + a13*b32) (a10*b03 + a11*b13 + a12*b23 + a13*b33)
          (a20*b00 + a21*b10 + a22*b20 + a23*b30) (a20*b01 + a21*b11 + a22*b21 + a23*b31)
          (a20*b02 + a21*b12 + a22*b22 + a23*b32) (a20*b03 + a21*b13 + a22*b23 + a23*b33)
          (a30*b00 + a31*b10 + a32*b20 + a33*b30) (a30*b01 + a31*b11 + a32*b21 + a33*b31)
          (a30*b02 + a31*b12 + a32*b22 + a33*b32) (a30*b03 + a31*b13 + a32*b23 + a33*b33)"

definition det3 ::
  "real \<Rightarrow> real \<Rightarrow> real \<Rightarrow> real \<Rightarrow> real \<Rightarrow> real \<Rightarrow> real \<Rightarrow> real \<Rightarrow> real \<Rightarrow> real" where
  "det3 a b c d e f g h i = a * (e * i - f * h) - b * (d * i - f * g) + c * (d * h - e * g)"

fun det4 :: "mat4 \<Rightarrow> real" where
  "det4 (Mat4 a00 a01 a02 a03 a10 a11 a12 a13 a20 a21 a22 a23 a30 a31 a32 a33) =
       a00 * det3 a11 a12 a13 a21 a22 a23 a31 a32 a33
     - a01 * det3 a10 a12 a13 a20 a22 a23 a30 a32 a33
     + a02 * det3 a10 a11 a13 a20 a21 a23 a30 a31 a33
     - a03 * det3 a10 a11 a12 a20 a21 a22 a30 a31 a32"

text \<open>The transposed matrix of cofactors.\<close>

fun adjugate :: "mat4 \<Rightarrow> mat4" where
  "adjugate (Mat4 a00 a01 a02 a03 a10 a11 a12 a13 a20 a21 a22 a23 a30 a31 a32 a33) =
     Mat4 (det3 a11 a12 a13 a21 a22 a23 a31 a32 a33)
          (- det3 a01 a02 a03 a21 a22 a23 a31 a32 a33)
          (det3 a01 a02 a03 a11 a12 a13 a31 a32 a33)
          (- det3 a01 a02 a03 a11 a12 a13 a21 a22 a23)
          (- det3 a10 a12 a13 a20 a22 a23 a30 a32 a33)
          (det3 a00 a02 a03 a20 a22 a23 a30 a32 a33)
          (- det3 a00 a02 a03 a10 a12 a13 a30 a32 a33)
          (det3 a00 a02 a03 a10 a12 a13 a20 a22 a23)
          (det3 a10 a11 a13 a20 a21 a23 a30 a31 a33)
          (- det3 a00 a01 a03 a20 a21 a23 a30 a31 a33)
          (det3 a00 a01 a03 a10 a11 a13 a30 a31 a33)
          (- det3 a00 a01 a03 a10 a11 a13 a20 a21 a23)
          (- det3 a10 a11 a12 a20 a21 a22 a30 a31 a32)
          (det3 a00 a01 a02 a20 a21 a22 a30 a31 a32)
          (- det3 a00 a01 a02 a10 a11 a12 a30 a31 a32)
          (det3 a00 a01 a02 a10 a11 a12 a20 a21 a22)"

fun mat_scale :: "real \<Rightarrow> mat4 \<Rightarrow> mat4" where
  "mat_scale c (Mat4 a00 a01 a02 a03 a10 a11 a12 a13 a20 a21 a22 a23 a30 a31 a32 a33) =
     Mat4 (c*a00) (c*a01) (c*a02) (c*a03) (c*a10) (c*a11) (c*a12) (c*a13)
          (c*a20) (c*a21) (c*a22) (c*a23) (c*a30) (c*a31) (c*a32) (c*a33)"

text \<open>
  The exact inverse, the adjugate divided by the determinant, with LinAlgError for a
  singular matrix.
\<close>

definition mat_inverse :: "mat4 \<Rightarrow> pyerr + mat4" where
  "mat_inverse a =
     (if det4 a = 0 then Inl LinAlgError else Inr (mat_scale (1 / det4 a) (adjugate a)))"

text \<open>An affine in homogeneous coordinates has the last row \<open>0 0 0 1\<close>.\<close>

fun is_affine :: "mat4 \<Rightarrow> bool" where
  "is_affine (Mat4 a00 a01 a02 a03 a10 a11 a12 a13 a20 a21 a22 a23 a30 a31 a32 a33) =
     (a30 = 0 \<and> a31 = 0 \<and> a32 = 0 \<and> a33 = 1)"

definition translation :: "real \<Rightarrow> real \<Rightarrow> real \<Rightarrow> mat4" where
  "translation tx ty tz = Mat4 1 0 0 tx  0 1 0 ty  0 0 1 tz  0 0 0 1"

type_synonym point = "real \<times> real \<times> real"

text \<open>
  An affine applied to a point, exactly: the linear part times the point plus the
  translation column.
\<close>

fun apply_affine_pt :: "mat4 \<Rightarrow> point \<Rightarrow> point" where
  "apply_affine_pt (Mat4 a00 a01 a02 a03 a10 a11 a12 a13 a20 a21 a22 a23 a30 a31 a32 a33)
                   (x, y, z) =
     (a00*x + a01*y + a02*z + a03, a10*x + a11*y + a12*z + a13, a20*x + a21*y + a22*z + a23)"

subsection \<open>What the numerical library computes\<close>

text \<open>
  The module computes with arrays of the numerical library, in floating point. Four of
  its operations decide what \<^verbatim>\<open>apply_affine\<close> leaves behind, and none of them is exact
  in general:
  \<^item> \<open>astype\<close>: the conversion of a row to the element type of the buffer
    \<^verbatim>\<open>self.streamlines._data\<close>, which every assignment into the buffer applies (an integer
    buffer drops the fractional part, a single-precision buffer rounds);
  \<^item> \<open>affines_row\<close>: the row that \<^verbatim>\<open>nibabel.affines.apply_affine\<close> computes for one row
    of points;
  \<^item> \<open>np_dot\<close>: \<^verbatim>\<open>np.dot\<close> of two 4x4 arrays;
  \<^item> \<open>np_linalg_inv\<close>: \<^verbatim>\<open>np.linalg.inv\<close>, which returns a matrix or raises LinAlgError.
  They are parameters of the model: every definition that computes takes a record \<open>nx\<close>
  of them, and what is proved for every \<open>nx\<close> holds whatever the library computes.
\<close>

record numerics =
  astype :: "point \<Rightarrow> point"
  affines_row :: "mat4 \<Rightarrow> point \<Rightarrow> point"
  np_dot :: "mat4 \<Rightarrow> mat4 \<Rightarrow> mat4"
  np_linalg_inv :: "mat4 \<Rightarrow> pyerr + mat4"

text \<open>
  Modelled from the spec: \<^verbatim>\<open>nibabel.affines.apply_affine\<close> is imported by the module and
  its source is not part of the files at hand. The specification says that every point
  is replaced by the affine applied to it, whatever the chunk it is in: each row of the
  argument gives one row of the result.
\<close>

definition apply_affine :: "numerics \<Rightarrow> mat4 \<Rightarrow> point list \<Rightarrow> point list" where
  "apply_affine nx aff pts = map (affines_row nx aff) pts"

section \<open>ArraySequence\<close>

text \<open>
  Modelled from the spec: \<^verbatim>\<open>ArraySequence\<close> is imported from \<^verbatim>\<open>.array_sequence\<close>, whose
  source is not part of the files at hand. The specification describes one contiguous
  buffer of rows (\<^verbatim>\<open>_data\<close>) with, per logical sequence, an offset and a length into it;
  construction from an iterable of arrays, the number of sequences, reading one sequence
  by position (a bounds error out of range), iteration in order, and copying.
\<close>

record 'a ArraySequence =
  seq_data :: "'a list"
  seq_offsets :: "nat list"
  seq_lengths :: "nat list"

fun offsets_from :: "nat \<Rightarrow> nat list \<Rightarrow> nat list" where
  "offsets_from off [] = []"
| "offsets_from off (n # ns) = off # offsets_from (off + n) ns"

definition ArraySequence_init :: "'a list list \<Rightarrow> 'a ArraySequence" where
  "ArraySequence_init arrays =
     \<lparr>seq_data = concat arrays,
      seq_offsets = offsets_from 0 (map length arrays),
      seq_lengths = map length arrays\<rparr>"

definition ArraySequence_len :: "'a ArraySequence \<Rightarrow> nat" where
  "ArraySequence_len s = length (seq_offsets s)"

definition ArraySequence_getitem :: "'a ArraySequence \<Rightarrow> nat \<Rightarrow> pyerr + 'a list" where
  "ArraySequence_getitem s i =
     (if i < length (seq_offsets s) \<and> i < length (seq_lengths s)
      then Inr (take (seq_lengths s ! i) (drop (seq_offsets s ! i) (seq_data s)))
      else Inl IndexError)"

definition ArraySequence_iter :: "'a ArraySequence \<Rightarrow> 'a list list" where
  "ArraySequence_iter s =
     map (\<lambda>(off, n). take n (drop off (seq_data s))) (zip (seq_offsets s) (seq_lengths s))"

definition ArraySequence_copy :: "'a ArraySequence \<Rightarrow> 'a ArraySequence" where
  "ArraySequence_copy s = s"

section \<open>Names bound in the module\<close>

text \<open>
  The global names of \<^verbatim>\<open>tractogram.py\<close>: its imports (\<^verbatim>\<open>copy\<close>, \<^verbatim>\<open>numbers\<close>, \<^verbatim>\<open>np\<close>,
  \<^verbatim>\<open>collections\<close>, \<^verbatim>\<open>warn\<close>, \<^verbatim>\<open>apply_affine\<close>, \<^verbatim>\<open>ArraySequence\<close>), its two functions and
  its six classes. A function body that uses a global name looks it up here when it runs;
  a name that is not bound raises NameError.
\<close>

definition module_names :: "string list" where
  "module_names =
     [''copy'', ''numbers'', ''np'', ''collections'', ''warn'', ''apply_affine'',
      ''ArraySequence'', ''is_data_dict'', ''is_lazy_dict'', ''SliceableDataDict'',
      ''PerArrayDict'', ''LazyDict'', ''TractogramItem'', ''Tractogram'', ''LazyTractogram'']"

text \<open>Looking up the global \<open>name\<close>; \<open>obj\<close> is the object the name would stand for.\<close>

definition load_global :: "string \<Rightarrow> 'c \<Rightarrow> pyerr + 'c" where
  "load_global name obj = (if name \<in> set module_names then Inr obj else Inl NameError)"

section \<open>Tractogram\<close>

text \<open>
  The attributes \<^verbatim>\<open>_streamlines\<close>, \<^verbatim>\<open>_data_per_streamline\<close>, \<^verbatim>\<open>_data_per_point\<close> and
  \<^verbatim>\<open>_affine_to_rasmm\<close>. The two dictionaries map a key to the sequence of values, one
  per streamline, that iterating the stored entry yields.
\<close>

record ('s, 'p) Tractogram =
  streamlines :: "point ArraySequence"
  data_per_streamline :: "'s list pydict"
  data_per_point :: "'p list pydict"
  affine_to_rasmm :: mat4

text \<open>
  \<^verbatim>\<open>Tractogram.__init__\<close> with its three property setters, in the order of the
  assignments. The setters call \<^verbatim>\<open>DataPerStreamlineDict(self, value)\<close> and
  \<^verbatim>\<open>DataPerPointDict(self, value)\<close>; whatever classes these names are meant to stand for
  is a parameter here, and each name is looked up among the globals of the module first.
\<close>

definition Tractogram_init ::
  "(point ArraySequence \<Rightarrow> 'a \<Rightarrow> pyerr + 's list pydict) \<Rightarrow>
   (point ArraySequence \<Rightarrow> 'b \<Rightarrow> pyerr + 'p list pydict) \<Rightarrow>
   point list list \<Rightarrow> 'a \<Rightarrow> 'b \<Rightarrow> mat4 \<Rightarrow> pyerr + ('s, 'p) Tractogram" where
  "Tractogram_init DataPerStreamlineDict DataPerPointDict streamlines0 dps dpp affine =
     (let s = ArraySequence_init streamlines0 in
      case load_global ''DataPerStreamlineDict'' DataPerStreamlineDict of
        Inl e \<Rightarrow> Inl e
      | Inr cls1 \<Rightarrow>
         (case cls1 s dps of
            Inl e \<Rightarrow> Inl e
          | Inr d1 \<Rightarrow>
             (case load_global ''DataPerPointDict'' DataPerPointDict of
                Inl e \<Rightarrow> Inl e
              | Inr cls2 \<Rightarrow>
                 (case cls2 s dpp of
                    Inl e \<Rightarrow> Inl e
                  | Inr d2 \<Rightarrow>
                     Inr \<lparr>streamlines = s, data_per_streamline = d1,
                          data_per_point = d2, affine_to_rasmm = affine\<rparr>))))"

definition get_affine_to_rasmm :: "('s, 'p) Tractogram \<Rightarrow> mat4" where
  "get_affine_to_rasmm self = affine_to_rasmm self"

definition Tractogram_len :: "('s, 'p) Tractogram \<Rightarrow> nat" where
  "Tractogram_len self = ArraySequence_len (streamlines self)"

text \<open>\<^verbatim>\<open>copy.deepcopy(self)\<close>: an equal value that shares nothing with the original.\<close>

definition Tractogram_copy :: "('s, 'p) Tractogram \<Rightarrow> ('s, 'p) Tractogram" where
  "Tractogram_copy self = self"

subsection \<open>The buffered loop of apply_affine\<close>

definition BUFFER_SIZE :: nat where
  "BUFFER_SIZE = 10000000"

text \<open>\<^verbatim>\<open>range(start, stop, step)\<close> for a positive step.\<close>

function py_range :: "nat \<Rightarrow> nat \<Rightarrow> nat \<Rightarrow> nat list" where
  "py_range start stop step =
     (if step = 0 \<or> stop \<le> start then [] else start # py_range (start + step) stop step)"
  by pat_completeness auto
termination
  by (relation "measure (\<lambda>(start, stop, step). stop - start)") auto

text \<open>\<^verbatim>\<open>xs[start:end]\<close> and \<^verbatim>\<open>xs[start:end] = ys\<close> on the rows of the buffer.\<close>

definition py_slice :: "'a list \<Rightarrow> nat \<Rightarrow> nat \<Rightarrow> 'a list" where
  "py_slice xs start end = drop start (take end xs)"

definition py_slice_assign :: "'a list \<Rightarrow> nat \<Rightarrow> nat \<Rightarrow> 'a list \<Rightarrow> 'a list" where
  "py_slice_assign xs start end ys = take start xs @ ys @ drop end xs"

text \<open>
  One pass of the loop body, and the loop over the chunk starts. The assignment into the
  buffer converts every row it writes to the element type of the buffer.
\<close>

definition apply_affine_chunk :: "numerics \<Rightarrow> mat4 \<Rightarrow> nat \<Rightarrow> point list \<Rightarrow> point list" where
  "apply_affine_chunk nx affine start data =
     (let end = start + BUFFER_SIZE; pts = py_slice data start end
      in py_slice_assign data start end (map (astype nx) (apply_affine nx affine pts)))"

definition apply_affine_buffered :: "numerics \<Rightarrow> mat4 \<Rightarrow> point list \<Rightarrow> point list" where
  "apply_affine_buffered nx affine data =
     fold (apply_affine_chunk nx affine) (py_range 0 (length data) BUFFER_SIZE) data"

text \<open>
  What the assignment of the loop body leaves in the buffer for a row \<open>p\<close>: the row
  computed for \<open>p\<close>, converted to the element type of the buffer.
\<close>

definition stored_row :: "numerics \<Rightarrow> mat4 \<Rightarrow> point \<Rightarrow> point" where
  "stored_row nx aff p = astype nx (affines_row nx aff p)"

section \<open>LazyTractogram\<close>

text \<open>
  The attributes of the base class, then \<^verbatim>\<open>_nb_streamlines\<close>, \<^verbatim>\<open>_data\<close> and
  \<^verbatim>\<open>_affine_to_apply\<close>. \<^verbatim>\<open>_streamlines\<close> and \<^verbatim>\<open>_data\<close> hold \<^verbatim>\<open>None\<close> or a generator
  function; a generator is the list of what it yields. \<^verbatim>\<open>_data\<close> yields
  \<^verbatim>\<open>TractogramItem\<close> objects.
\<close>

record ('s, 'p) TractogramItem =
  streamline :: "point list"
  data_for_streamline :: "'s pydict"
  data_for_points :: "'p pydict"

record ('s, 'p) LazyTractogram =
  lazy_streamlines :: "point list list pyvalue"
  lazy_data_per_streamline :: "'s list LazyDict"
  lazy_data_per_point :: "'p list LazyDict"
  lazy_affine_to_rasmm :: mat4
  nb_streamlines :: "nat option"
  lazy_data :: "('s, 'p) TractogramItem list pyvalue"
  affine_to_apply :: mat4

text \<open>
  \<^verbatim>\<open>LazyTractogram.__init__\<close>: the base constructor runs the overridden setters (the
  streamlines must be None or callable; each dictionary is built by
  \<^verbatim>\<open>LazyDict(self, value)\<close>, two positional arguments), then the three own attributes are
  set.
\<close>

definition LazyTractogram_init ::
  "point list list pyvalue \<Rightarrow> 's list pyarg \<Rightarrow> 'p list pyarg \<Rightarrow> mat4 \<Rightarrow>
   pyerr + ('s, 'p) LazyTractogram" where
  "LazyTractogram_init streamlines0 dps dpp affine =
     (if streamlines0 \<noteq> PyNone \<and> \<not> callable streamlines0 then Inl TypeError
      else case LazyDict_init [ArgObject, dps] of
        Inl e \<Rightarrow> Inl e
      | Inr d1 \<Rightarrow>
         (case LazyDict_init [ArgObject, dpp] of
            Inl e \<Rightarrow> Inl e
          | Inr d2 \<Rightarrow>
             Inr \<lparr>lazy_streamlines = streamlines0, lazy_data_per_streamline = d1,
                  lazy_data_per_point = d2, lazy_affine_to_rasmm = affine,
                  nb_streamlines = None, lazy_data = PyNone, affine_to_apply = eye4\<rparr>))"

text \<open>
  The two loops of \<^verbatim>\<open>from_tractogram\<close>: under every key of the eager dictionary, a producer
  of the values stored there.
\<close>

fun set_generators :: "'g LazyDict \<Rightarrow> 'g pydict \<Rightarrow> pyerr + 'g LazyDict" where
  "set_generators d [] = Inr d"
| "set_generators d ((k, v) # kvs) =
     (case LazyDict_setitem d k (PyCallable (\<lambda>_. v)) of
        Inl e \<Rightarrow> Inl e
      | Inr d' \<Rightarrow> set_generators d' kvs)"

text \<open>\<^verbatim>\<open>LazyTractogram.from_tractogram\<close>; the first statement is \<^verbatim>\<open>cls(lambda: ...)\<close>.\<close>

definition from_tractogram :: "('s, 'p) Tractogram \<Rightarrow> pyerr + ('s, 'p) LazyTractogram" where
  "from_tractogram tractogram =
     (case LazyTractogram_init
             (PyCallable (\<lambda>_. ArraySequence_iter (ArraySequence_copy (streamlines tractogram))))
             ArgNone ArgNone eye4 of
        Inl e \<Rightarrow> Inl e
      | Inr lt \<Rightarrow>
         (case set_generators (lazy_data_per_streamline lt) (data_per_streamline tractogram) of
            Inl e \<Rightarrow> Inl e
          | Inr d1 \<Rightarrow>
             (case set_generators (lazy_data_per_point lt) (data_per_point tractogram) of
                Inl e \<Rightarrow> Inl e
              | Inr d2 \<Rightarrow>
                 Inr (lt\<lparr>lazy_data_per_streamline := d1, lazy_data_per_point := d2,
                         nb_streamlines := Some (Tractogram_len tractogram),
                         lazy_affine_to_rasmm := get_affine_to_rasmm tractogram\<rparr>))))"

text \<open>
  \<^verbatim>\<open>LazyTractogram.copy\<close>: a new instance from the producers and the two dictionaries
  (the affine argument keeps its default, the identity), then three attributes copied.
\<close>

definition LazyTractogram_copy ::
  "('s, 'p) LazyTractogram \<Rightarrow> pyerr + ('s, 'p) LazyTractogram" where
  "LazyTractogram_copy self =
     (case LazyTractogram_init (lazy_streamlines self)
             (ArgLazyDict (lazy_data_per_streamline self))
             (ArgLazyDict (lazy_data_per_point self)) eye4 of
        Inl e \<Rightarrow> Inl e
      | Inr t \<Rightarrow>
         Inr (t\<lparr>nb_streamlines := nb_streamlines self, lazy_data := lazy_data self,
                affine_to_apply := affine_to_apply self\<rparr>))"

text \<open>
  The methods below return the receiver as it is after the call together with what the
  call returned or raised.

  \<^verbatim>\<open>LazyTractogram.apply_affine\<close>: refuses \<^verbatim>\<open>lazy=False\<close>, copies the receiver, and sets
  the pending affine and the affine to world space on the copy.
\<close>

definition LazyTractogram_apply_affine ::
  "numerics \<Rightarrow> ('s, 'p) LazyTractogram \<Rightarrow> mat4 \<Rightarrow> bool \<Rightarrow>
   ('s, 'p) LazyTractogram \<times> (pyerr + ('s, 'p) LazyTractogram)" where
  "LazyTractogram_apply_affine nx self affine lazy =
     (if \<not> lazy then (self, Inl ValueError)
      else case LazyTractogram_copy self of
        Inl e \<Rightarrow> (self, Inl e)
      | Inr tractogram \<Rightarrow>
         (case np_linalg_inv nx affine of
            Inl e \<Rightarrow> (self, Inl e)
          | Inr inv_affine \<Rightarrow>
             (self, Inr (tractogram\<lparr>affine_to_apply := np_dot nx affine (affine_to_apply self),
                                    lazy_affine_to_rasmm :=
                                      np_dot nx (lazy_affine_to_rasmm self) inv_affine\<rparr>))))"

text \<open>\<^verbatim>\<open>LazyTractogram.__getitem__\<close>: one \<^verbatim>\<open>raise\<close> statement.\<close>

definition LazyTractogram_getitem ::
  "('s, 'p) LazyTractogram \<Rightarrow> pykey \<Rightarrow>
   ('s, 'p) LazyTractogram \<times> (pyerr + 'r)" where
  "LazyTractogram_getitem self idx = (self, Inl NotImplementedError)"

section \<open>Affine application on the eager tractogram\<close>

text \<open>What \<^verbatim>\<open>apply_affine\<close> returns: the receiver itself, or a new lazy tractogram.\<close>

datatype 'l retval = RetSelf | RetLazy 'l

text \<open>
  \<^verbatim>\<open>Tractogram.apply_affine\<close>. With \<^verbatim>\<open>lazy\<close>, the work is passed to a lazy tractogram
  built from the receiver. Without streamlines the receiver is returned at once. Otherwise
  the buffer is transformed chunk by chunk, then the affine is inverted and multiplied
  into \<^verbatim>\<open>_affine_to_rasmm\<close>; when the inversion raises, the buffer is already written.
\<close>

definition Tractogram_apply_affine ::
  "numerics \<Rightarrow> ('s, 'p) Tractogram \<Rightarrow> mat4 \<Rightarrow> bool \<Rightarrow>
   ('s, 'p) Tractogram \<times> (pyerr + ('s, 'p) LazyTractogram retval)" where
  "Tractogram_apply_affine nx self affine lazy =
     (if lazy
      then (case from_tractogram self of
              Inl e \<Rightarrow> (self, Inl e)
            | Inr lazy_tractogram \<Rightarrow>
               (case snd (LazyTractogram_apply_affine nx lazy_tractogram affine True) of
                  Inl e \<Rightarrow> (self, Inl e)
                | Inr r \<Rightarrow> (self, Inr (RetLazy r))))
      else if ArraySequence_len (streamlines self) = 0 then (self, Inr RetSelf)
      else
        (let self1 = self\<lparr>streamlines := (streamlines self)
                       \<lparr>seq_data :=
                          apply_affine_buffered nx affine (seq_data (streamlines self))\<rparr>\<rparr>
         in case np_linalg_inv nx affine of
              Inl e \<Rightarrow> (self1, Inl e)
            | Inr inv_affine \<Rightarrow>
               (self1\<lparr>affine_to_rasmm := np_dot nx (affine_to_rasmm self1) inv_affine\<rparr>,
                Inr RetSelf)))"

text \<open>\<^verbatim>\<open>Tractogram.to_world\<close>: the recorded affine is the one applied.\<close>

definition Tractogram_to_world ::
  "numerics \<Rightarrow> ('s, 'p) Tractogram \<Rightarrow> bool \<Rightarrow>
   ('s, 'p) Tractogram \<times> (pyerr + ('s, 'p) LazyTractogram retval)" where
  "Tractogram_to_world nx self lazy =
     Tractogram_apply_affine nx self (affine_to_rasmm self) lazy"

section \<open>Values used in the examples\<close>

text \<open>
  The operations without rounding, and the same with a buffer of integers, whose
  assignment drops the fractional part of every coordinate. On the numbers of the examples
  below (small integers and halves) binary floating point computes exactly, so there these
  are the values the library returns.
\<close>

definition exact_numerics :: numerics where
  "exact_numerics =
     \<lparr>astype = (\<lambda>p. p), affines_row = apply_affine_pt,
      np_dot = mat_mul, np_linalg_inv = mat_inverse\<rparr>"

definition trunc_coord :: "real \<Rightarrow> real" where
  "trunc_coord x = (if 0 \<le> x then of_int \<lfloor>x\<rfloor> else of_int \<lceil>x\<rceil>)"

definition astype_int :: "point \<Rightarrow> point" where
  "astype_int p = (case p of (x, y, z) \<Rightarrow> (trunc_coord x, trunc_coord y, trunc_coord z))"

definition integer_numerics :: numerics where
  "integer_numerics =
     \<lparr>astype = astype_int, affines_row = apply_affine_pt,
      np_dot = mat_mul, np_linalg_inv = mat_inverse\<rparr>"

text \<open>The same operations when the inversion gives up and raises LinAlgError.\<close>

definition refusing_numerics :: numerics where
  "refusing_numerics = exact_numerics\<lparr>np_linalg_inv := (\<lambda>a. Inl LinAlgError)\<rparr>"

text \<open>Moving a point by \<open>(1, 2, 3)\<close>.\<close>

definition shift123 :: "point \<Rightarrow> point" where
  "shift123 p = (case p of (x, y, z) \<Rightarrow> (x + 1, y + 2, z + 3))"

text \<open>Three streamlines of 2, 3 and 1 points, no auxiliary data, identity affine.\<close>

definition example_tractogram :: "(real, real) Tractogram" where
  "example_tractogram =
     \<lparr>streamlines = ArraySequence_init
        [[(0, 0, 0), (1, 0, 0)], [(0, 1, 0), (0, 2, 0), (0, 3, 0)], [(5, 5, 5)]],
      data_per_streamline = [], data_per_point = [], affine_to_rasmm = eye4\<rparr>"

definition example_scaling :: mat4 where
  "example_scaling = Mat4 2 0 0 0  0 2 0 0  0 0 2 0  0 0 0 1"

text \<open>One streamline of two points with integer coordinates, identity affine.\<close>

definition example_integer_tractogram :: "(real, real) Tractogram" where
  "example_integer_tractogram =
     \<lparr>streamlines = ArraySequence_init [[(0, 0, 0), (1, 0, 0)]],
      data_per_streamline = [], data_per_point = [], affine_to_rasmm = eye4\<rparr>"

text \<open>Two streamlines, and none, with a translation as recorded affine.\<close>

definition example_translated :: "(real, real) Tractogram" where
  "example_translated =
     \<lparr>streamlines = ArraySequence_init [[(0, 0, 0), (1, 0, 0)], [(2, 2, 2)]],
      data_per_streamline = [], data_per_point = [], affine_to_rasmm = translation 1 2 3\<rparr>"

definition empty_translated :: "(real, real) Tractogram" where
  "empty_translated =
     \<lparr>streamlines = ArraySequence_init [],
      data_per_streamline = [], data_per_point = [], affine_to_rasmm = translation 1 2 3\<rparr>"



definition example_column :: ndarray where
  "example_column = \<lparr>shape = [3, 1], dtype_object = False, flat = [Num 10, Num 20, Num 30]\<rparr>"

definition example_pairs :: ndarray where
  "example_pairs =
     \<lparr>shape = [3, 2], dtype_object = False,
      flat = [Num 1, Num 2, Num 3, Num 4, Num 5, Num 6]\<rparr>"

definition example_int_keyed :: PerArrayDict where
  "example_int_keyed = \<lparr>n_elements = Some 3, store = [(KInt 1, example_column)]\<rparr>"

definition example_named :: PerArrayDict where
  "example_named =
     \<lparr>n_elements = Some 3,
      store = [(KStr ''mean'', example_column), (KStr ''ends'', example_pairs)]\<rparr>"

definition example_with_flat :: PerArrayDict where
  "example_with_flat =
     \<lparr>n_elements = None,
      store = [(KStr ''mean'', example_column),
               (KStr ''flat'',
                \<lparr>shape = [3], dtype_object = False, flat = [Num 10, Num 20, Num 30]\<rparr>)]\<rparr>"

definition example_with_short :: PerArrayDict where
  "example_with_short =
     \<lparr>n_elements = None,
      store = [(KStr ''mean'', example_column),
               (KStr ''short'',
                \<lparr>shape = [2, 1], dtype_object = False, flat = [Num 1, Num 2]\<rparr>)]\<rparr>"

section \<open>Matrix and buffer lemmas\<close>

text \<open>
  The exact inverse is a right inverse, the exact product acts on points as the
  composition, and the loop over the chunks treats every row of the buffer once.
\<close>

lemma dot_adjugate: "mat_mul a (adjugate a) = mat_scale (det4 a) eye4"
proof (cases a)
  case (Mat4 a00 a01 a02 a03 a10 a11 a12 a13 a20 a21 a22 a23 a30 a31 a32 a33)
  show ?thesis unfolding Mat4
    by (simp add: eye4_def det3_def, intro conjI; algebra)
qed

lemma dot_scale_right: "mat_mul a (mat_scale c b) = mat_scale c (mat_mul a b)"
  by (cases a; cases b) (simp add: algebra_simps)

lemma scale_scale_eye: "d \<noteq> 0 \<Longrightarrow> mat_scale (1 / d) (mat_scale d eye4) = eye4"
  by (simp add: eye4_def)

lemma inv_right:
  assumes "mat_inverse a = Inr b"
  shows "mat_mul a b = eye4"
proof -
  from assms have d: "det4 a \<noteq> 0" and b: "b = mat_scale (1 / det4 a) (adjugate a)"
    by (auto simp: mat_inverse_def split: if_splits)
  show ?thesis
    unfolding b dot_scale_right dot_adjugate using d by (rule scale_scale_eye)
qed

lemma apply_affine_pt_dot:
  "is_affine a \<Longrightarrow> apply_affine_pt (mat_mul b a) p = apply_affine_pt b (apply_affine_pt a p)"
  by (cases a; cases b; cases p) (simp add: algebra_simps)

lemma py_range_unfold:
  "py_range start stop step =
     (if step = 0 \<or> stop \<le> start then [] else start # py_range (start + step) stop step)"
  by (rule py_range.simps)

lemma BUFFER_SIZE_pos: "0 < BUFFER_SIZE"
  by (simp add: BUFFER_SIZE_def)

lemma chunk_step:
  assumes "start < length data"
  shows "apply_affine_chunk nx aff start (map (stored_row nx aff) (take start data) @ drop start data)
         = map (stored_row nx aff) (take (start + BUFFER_SIZE) data) @ drop (start + BUFFER_SIZE) data"
proof -
  let ?f = "stored_row nx aff"
  let ?d = "map ?f (take start data) @ drop start data"
  have len: "length (map ?f (take start data)) = start" using assms by simp
  have sl: "py_slice ?d start (start + BUFFER_SIZE) = take BUFFER_SIZE (drop start data)"
    using len by (simp add: py_slice_def)
  have tk: "take start ?d = map ?f (take start data)" using len by simp
  have dr: "drop (start + BUFFER_SIZE) ?d = drop (start + BUFFER_SIZE) data"
    using len by (simp add: add.commute)
  have wr: "map (astype nx) (apply_affine nx aff xs) = map ?f xs" for xs
    by (simp add: apply_affine_def stored_row_def)
  have "apply_affine_chunk nx aff start ?d
        = map ?f (take start data) @ map ?f (take BUFFER_SIZE (drop start data))
          @ drop (start + BUFFER_SIZE) data"
    by (simp only: apply_affine_chunk_def Let_def sl py_slice_assign_def tk dr wr)
  also have "\<dots> = map ?f (take (start + BUFFER_SIZE) data) @ drop (start + BUFFER_SIZE) data"
    by (simp add: take_add)
  finally show ?thesis .
qed

lemma chunks_from:
  "fold (apply_affine_chunk nx aff) (py_range start (length data) BUFFER_SIZE)
     (map (stored_row nx aff) (take start data) @ drop start data)
   = map (stored_row nx aff) data"
proof (induction "length data - start" arbitrary: start rule: less_induct)
  case less
  show ?case
  proof (cases "start < length data")
    case False
    then show ?thesis
      by (subst py_range_unfold) simp
  next
    case True
    have dec: "length data - (start + BUFFER_SIZE) < length data - start"
      using True BUFFER_SIZE_pos by arith
    have "fold (apply_affine_chunk nx aff) (py_range start (length data) BUFFER_SIZE)
            (map (stored_row nx aff) (take start data) @ drop start data)
          = fold (apply_affine_chunk nx aff)
              (py_range (start + BUFFER_SIZE) (length data) BUFFER_SIZE)
              (apply_affine_chunk nx aff start
                 (map (stored_row nx aff) (take start data) @ drop start data))"
      using True BUFFER_SIZE_pos by (subst py_range_unfold) simp
    also have "\<dots> = map (stored_row nx aff) data"
      unfolding chunk_step [OF True] by (rule less [OF dec])
    finally show ?thesis .
  qed
qed

lemma apply_affine_buffered_map:
  "apply_affine_buffered nx aff data = map (stored_row nx aff) data"
  using chunks_from [of nx aff 0 data] by (simp add: apply_affine_buffered_def)

lemma apply_affine_eager_points:
  "ArraySequence_len (streamlines t) \<noteq> 0 \<Longrightarrow>
   streamlines (fst (Tractogram_apply_affine nx t A False)) =
     (streamlines t)\<lparr>seq_data := map (stored_row nx A) (seq_data (streamlines t))\<rparr>"
  by (simp add: Tractogram_apply_affine_def apply_affine_buffered_map Let_def split: sum.splits)

lemma apply_affine_eager_result:
  assumes len: "ArraySequence_len (streamlines t) \<noteq> 0" and inv: "np_linalg_inv nx A = Inr V"
  shows "Tractogram_apply_affine nx t A False =
           (t\<lparr>streamlines := (streamlines t)
                 \<lparr>seq_data := map (stored_row nx A) (seq_data (streamlines t))\<rparr>,
               affine_to_rasmm := np_dot nx (affine_to_rasmm t) V\<rparr>, Inr RetSelf)"
  using len inv by (simp add: Tractogram_apply_affine_def apply_affine_buffered_map Let_def)

lemma apply_affine_eager_raises:
  assumes len: "ArraySequence_len (streamlines t) \<noteq> 0" and inv: "np_linalg_inv nx A = Inl e"
  shows "Tractogram_apply_affine nx t A False =
           (t\<lparr>streamlines := (streamlines t)
                 \<lparr>seq_data := map (stored_row nx A) (seq_data (streamlines t))\<rparr>\<rparr>, Inl e)"
  using len inv by (simp add: Tractogram_apply_affine_def apply_affine_buffered_map Let_def)

lemma apply_affine_eager_empty:
  "ArraySequence_len (streamlines t) = 0 \<Longrightarrow>
   Tractogram_apply_affine nx t A False = (t, Inr RetSelf)"
  by (simp add: Tractogram_apply_affine_def)

lemma apply_affine_eager_returns:
  "np_linalg_inv nx A = Inr V \<Longrightarrow> snd (Tractogram_apply_affine nx t A False) = Inr RetSelf"
  by (simp add: Tractogram_apply_affine_def Let_def)

lemma getitem_map:
  "ArraySequence_getitem (s\<lparr>seq_data := map f (seq_data s)\<rparr>) i =
     map_sum id (map f) (ArraySequence_getitem s i)"
  by (simp add: ArraySequence_getitem_def take_map drop_map)

lemma inv_translation:
  "mat_inverse (translation a b c) = Inr (translation (- a) (- b) (- c))"
  by (simp add: mat_inverse_def translation_def det3_def)

lemma dot_eye_left: "mat_mul eye4 a = a"
  by (cases a) (simp add: eye4_def)

lemma apply_translation: "apply_affine_pt (translation a b c) (x, y, z) = (x + a, y + b, z + c)"
  by (simp add: translation_def)

lemma exact_stored_row: "stored_row exact_numerics A p = apply_affine_pt A p"
  by (simp add: stored_row_def exact_numerics_def)

section \<open>Affine application in place\<close>

text \<open>
  Claim C1 as stated fails when the buffer cannot hold the transformed points. The
  assignment into \<^verbatim>\<open>self.streamlines._data\<close> converts to the element type of the
  buffer: with a buffer of integers holding \<open>(0, 0, 0)\<close> and \<open>(1, 0, 0)\<close>, the translation
  by \<open>(1/2, 1/2, 1/2)\<close> leaves both points where they were, although \<open>A\<close> applied to them
  is \<open>(1/2, 1/2, 1/2)\<close> and \<open>(3/2, 1/2, 1/2)\<close>; the recorded affine is updated all the
  same and the receiver is returned.
\<close>

theorem C1_apply_affine_eager_counterexample:
  "ArraySequence_len (streamlines example_integer_tractogram) \<noteq> 0 \<and>
   det4 (translation (1/2) (1/2) (1/2)) \<noteq> 0 \<and>
   Tractogram_apply_affine integer_numerics example_integer_tractogram
       (translation (1/2) (1/2) (1/2)) False
     = (example_integer_tractogram\<lparr>affine_to_rasmm := translation (- (1/2)) (- (1/2)) (- (1/2))\<rparr>,
        Inr RetSelf) \<and>
   seq_data (streamlines example_integer_tractogram) = [(0, 0, 0), (1, 0, 0)] \<and>
   map (apply_affine_pt (translation (1/2) (1/2) (1/2))) [(0, 0, 0), (1, 0, 0)]
     = [(1/2, 1/2, 1/2), (3/2, 1/2, 1/2)]"
proof -
  have len: "ArraySequence_len (streamlines example_integer_tractogram) \<noteq> 0"
    by (simp add: example_integer_tractogram_def ArraySequence_len_def ArraySequence_init_def)
  have inv: "np_linalg_inv integer_numerics (translation (1/2) (1/2) (1/2))
               = Inr (translation (- (1/2)) (- (1/2)) (- (1/2)))"
    by (simp add: integer_numerics_def inv_translation)
  have fl: "\<lfloor>1 / 2 :: real\<rfloor> = 0" "\<lfloor>3 / 2 :: real\<rfloor> = 1" by linarith+
  show ?thesis
    unfolding apply_affine_eager_result [OF len inv]
    by (simp add: example_integer_tractogram_def ArraySequence_init_def ArraySequence_len_def
          stored_row_def integer_numerics_def astype_int_def trunc_coord_def
          apply_translation dot_eye_left fl translation_def det3_def)
qed

text \<open>
  Claim C1, amended. On an eager tractogram with at least one streamline,
  \<^verbatim>\<open>apply_affine(A, lazy=False)\<close> replaces every row \<open>p\<close> of the buffer, chunk after
  chunk, by the row computed for \<open>p\<close> converted to the element type of the buffer, and
  the offsets and lengths stay, so every streamline read back is the old one with its
  rows replaced. Where that row is \<open>A\<close> applied to \<open>p\<close> for every row of the buffer, the
  buffer holds exactly the transformed points. When \<^verbatim>\<open>np.linalg.inv(A)\<close> returns \<open>V\<close>,
  the recorded affine \<open>W\<close> becomes \<^verbatim>\<open>np.dot(W, V)\<close>, nothing else changes and the
  receiver is returned. For three streamlines of 2, 3 and 1 points with the identity as
  recorded affine and the translation by \<open>(1, 2, 3)\<close>: when the six stored rows are the
  points moved by \<open>(1, 2, 3)\<close>, the inversion returns the translation by \<open>(-1, -2, -3)\<close>
  and its product with the identity is itself, every point has moved by \<open>(1, 2, 3)\<close> and
  the recorded affine is the translation by \<open>(-1, -2, -3)\<close>.
\<close>

theorem C1_apply_affine_eager:
  "(ArraySequence_len (streamlines t) \<noteq> 0 \<longrightarrow>
      streamlines (fst (Tractogram_apply_affine nx t A False)) =
        (streamlines t)\<lparr>seq_data := map (stored_row nx A) (seq_data (streamlines t))\<rparr> \<and>
      (\<forall>i. ArraySequence_getitem (streamlines (fst (Tractogram_apply_affine nx t A False))) i =
            map_sum id (map (stored_row nx A)) (ArraySequence_getitem (streamlines t) i)) \<and>
      ((\<forall>p \<in> set (seq_data (streamlines t)). stored_row nx A p = apply_affine_pt A p) \<longrightarrow>
         seq_data (streamlines (fst (Tractogram_apply_affine nx t A False))) =
           map (apply_affine_pt A) (seq_data (streamlines t))) \<and>
      (\<forall>V. np_linalg_inv nx A = Inr V \<longrightarrow>
         Tractogram_apply_affine nx t A False =
           (t\<lparr>streamlines := (streamlines t)
                 \<lparr>seq_data := map (stored_row nx A) (seq_data (streamlines t))\<rparr>,
               affine_to_rasmm := np_dot nx (affine_to_rasmm t) V\<rparr>, Inr RetSelf)))
   \<and>
   ((\<forall>p \<in> set [p1, p2, p3, p4, p5, p6]. stored_row nx (translation 1 2 3) p = shift123 p) \<and>
    np_linalg_inv nx (translation 1 2 3) = Inr (translation (- 1) (- 2) (- 3)) \<and>
    np_dot nx eye4 (translation (- 1) (- 2) (- 3)) = translation (- 1) (- 2) (- 3) \<longrightarrow>
    Tractogram_apply_affine nx
      \<lparr>streamlines = ArraySequence_init [[p1, p2], [p3, p4, p5], [p6]],
       data_per_streamline = dps, data_per_point = dpp, affine_to_rasmm = eye4\<rparr>
      (translation 1 2 3) False =
      (\<lparr>streamlines = ArraySequence_init
           [[shift123 p1, shift123 p2], [shift123 p3, shift123 p4, shift123 p5], [shift123 p6]],
        data_per_streamline = dps, data_per_point = dpp,
        affine_to_rasmm = translation (- 1) (- 2) (- 3)\<rparr>, Inr RetSelf))"
proof (intro conjI impI allI)
  assume len: "ArraySequence_len (streamlines t) \<noteq> 0"
  note pts = apply_affine_eager_points [OF len, of nx A]
  show "streamlines (fst (Tractogram_apply_affine nx t A False)) =
        (streamlines t)\<lparr>seq_data := map (stored_row nx A) (seq_data (streamlines t))\<rparr>"
    by (rule pts)
  show "ArraySequence_getitem (streamlines (fst (Tractogram_apply_affine nx t A False))) i =
            map_sum id (map (stored_row nx A)) (ArraySequence_getitem (streamlines t) i)" for i
    unfolding pts by (rule getitem_map)
  show "seq_data (streamlines (fst (Tractogram_apply_affine nx t A False))) =
           map (apply_affine_pt A) (seq_data (streamlines t))"
    if "\<forall>p \<in> set (seq_data (streamlines t)). stored_row nx A p = apply_affine_pt A p"
    unfolding pts using that by simp
  show "Tractogram_apply_affine nx t A False =
           (t\<lparr>streamlines := (streamlines t)
                 \<lparr>seq_data := map (stored_row nx A) (seq_data (streamlines t))\<rparr>,
               affine_to_rasmm := np_dot nx (affine_to_rasmm t) V\<rparr>, Inr RetSelf)"
    if "np_linalg_inv nx A = Inr V" for V
    by (rule apply_affine_eager_result [OF len that])
next
  let ?t = "\<lparr>streamlines = ArraySequence_init [[p1, p2], [p3, p4, p5], [p6]],
       data_per_streamline = dps, data_per_point = dpp, affine_to_rasmm = eye4\<rparr>"
  assume h: "(\<forall>p \<in> set [p1, p2, p3, p4, p5, p6].
                stored_row nx (translation 1 2 3) p = shift123 p) \<and>
    np_linalg_inv nx (translation 1 2 3) = Inr (translation (- 1) (- 2) (- 3)) \<and>
    np_dot nx eye4 (translation (- 1) (- 2) (- 3)) = translation (- 1) (- 2) (- 3)"
  then have inv: "np_linalg_inv nx (translation 1 2 3) = Inr (translation (- 1) (- 2) (- 3))"
    by simp
  have len: "ArraySequence_len (streamlines ?t) \<noteq> 0"
    by (simp add: ArraySequence_len_def ArraySequence_init_def)
  show "Tractogram_apply_affine nx ?t (translation 1 2 3) False =
      (\<lparr>streamlines = ArraySequence_init
           [[shift123 p1, shift123 p2], [shift123 p3, shift123 p4, shift123 p5], [shift123 p6]],
        data_per_streamline = dps, data_per_point = dpp,
        affine_to_rasmm = translation (- 1) (- 2) (- 3)\<rparr>, Inr RetSelf)"
    unfolding apply_affine_eager_result [OF len inv]
    using h by (simp add: ArraySequence_init_def)
qed

text \<open>
  The scenario of the claim on six concrete points, with the operations that do not
  round.
\<close>

theorem C1_apply_affine_eager_witness:
  "ArraySequence_len (streamlines example_tractogram) \<noteq> 0 \<and>
   map (stored_row exact_numerics (translation 1 2 3))
       [(0, 0, 0), (1, 0, 0), (0, 1, 0), (0, 2, 0), (0, 3, 0), (5, 5, 5)]
     = map shift123 [(0, 0, 0), (1, 0, 0), (0, 1, 0), (0, 2, 0), (0, 3, 0), (5, 5, 5)] \<and>
   np_linalg_inv exact_numerics (translation 1 2 3) = Inr (translation (- 1) (- 2) (- 3)) \<and>
   np_dot exact_numerics eye4 (translation (- 1) (- 2) (- 3)) = translation (- 1) (- 2) (- 3) \<and>
   Tractogram_apply_affine exact_numerics example_tractogram (translation 1 2 3) False =
     (\<lparr>streamlines = ArraySequence_init
         [[(1, 2, 3), (2, 2, 3)], [(1, 3, 3), (1, 4, 3), (1, 5, 3)], [(6, 7, 8)]],
       data_per_streamline = [], data_per_point = [],
       affine_to_rasmm = translation (- 1) (- 2) (- 3)\<rparr>, Inr RetSelf)"
proof -
  have a: "ArraySequence_len (streamlines example_tractogram) \<noteq> 0"
    by (simp add: example_tractogram_def ArraySequence_len_def ArraySequence_init_def)
  have b: "\<forall>p \<in> set [(0, 0, 0), (1, 0, 0), (0, 1, 0), (0, 2, 0), (0, 3, 0), (5, 5, 5)].
      stored_row exact_numerics (translation 1 2 3) p = shift123 p"
    by (simp add: exact_stored_row apply_translation shift123_def)
  have c: "np_linalg_inv exact_numerics (translation 1 2 3) = Inr (translation (- 1) (- 2) (- 3))"
    using inv_translation [of 1 2 3] by (simp add: exact_numerics_def)
  have d: "np_dot exact_numerics eye4 (translation (- 1) (- 2) (- 3))
             = translation (- 1) (- 2) (- 3)"
    by (simp add: exact_numerics_def dot_eye_left)
  note inst = C1_apply_affine_eager [of example_tractogram exact_numerics "translation 1 2 3"
          "(0, 0, 0)" "(1, 0, 0)" "(0, 1, 0)" "(0, 2, 0)" "(0, 3, 0)" "(5, 5, 5)"
          "[] :: real list pydict" "[] :: real list pydict", THEN conjunct2, rule_format]
  have e: "Tractogram_apply_affine exact_numerics example_tractogram (translation 1 2 3) False =
     (\<lparr>streamlines = ArraySequence_init
         [[(1, 2, 3), (2, 2, 3)], [(1, 3, 3), (1, 4, 3), (1, 5, 3)], [(6, 7, 8)]],
       data_per_streamline = [], data_per_point = [],
       affine_to_rasmm = translation (- 1) (- 2) (- 3)\<rparr>, Inr RetSelf)"
    using inst [OF conjI [OF b conjI [OF c d]]]
    by (simp add: example_tractogram_def shift123_def)
  have b': "map (stored_row exact_numerics (translation 1 2 3))
       [(0, 0, 0), (1, 0, 0), (0, 1, 0), (0, 2, 0), (0, 3, 0), (5, 5, 5)]
     = map shift123 [(0, 0, 0), (1, 0, 0), (0, 1, 0), (0, 2, 0), (0, 3, 0), (5, 5, 5)]"
    using b by simp
  show ?thesis
    using a b' c d e by blast
qed

text \<open>
  Claim C3 as stated fails, since the first call stores converted rows and the second
  call starts from them. With a buffer of integers holding \<open>(0, 0, 0)\<close> and \<open>(1, 0, 0)\<close>
  and \<open>A = B\<close> the translation by \<open>(1/2, 0, 0)\<close>, applying \<open>A\<close> and then \<open>B\<close> leaves the
  points where they were, while the product, the translation by \<open>(1, 0, 0)\<close>, applied once
  to a copy gives \<open>(1, 0, 0)\<close> and \<open>(2, 0, 0)\<close>: a difference of one unit, beyond any
  rounding tolerance.
\<close>

theorem C3_apply_affine_composes_counterexample:
  "is_affine (translation (1/2) 0 0) \<and> det4 (translation (1/2) 0 0) \<noteq> 0 \<and>
   np_dot integer_numerics (translation (1/2) 0 0) (translation (1/2) 0 0) = translation 1 0 0 \<and>
   seq_data (streamlines (fst (Tractogram_apply_affine integer_numerics
       (fst (Tractogram_apply_affine integer_numerics example_integer_tractogram
               (translation (1/2) 0 0) False))
       (translation (1/2) 0 0) False))) = [(0, 0, 0), (1, 0, 0)] \<and>
   seq_data (streamlines (fst (Tractogram_apply_affine integer_numerics
       (Tractogram_copy example_integer_tractogram)
       (np_dot integer_numerics (translation (1/2) 0 0) (translation (1/2) 0 0)) False)))
     = [(1, 0, 0), (2, 0, 0)]"
proof -
  have len: "ArraySequence_len (streamlines example_integer_tractogram) \<noteq> 0"
    by (simp add: example_integer_tractogram_def ArraySequence_len_def ArraySequence_init_def)
  have fl: "\<lfloor>1 / 2 :: real\<rfloor> = 0" "\<lfloor>3 / 2 :: real\<rfloor> = 1" by linarith+
  have half: "stored_row integer_numerics (translation (1/2) 0 0) (0, 0, 0) = (0, 0, 0)"
       "stored_row integer_numerics (translation (1/2) 0 0) (1, 0, 0) = (1, 0, 0)"
    by (simp_all add: stored_row_def integer_numerics_def astype_int_def trunc_coord_def
          apply_translation fl)
  have one: "stored_row integer_numerics (translation 1 0 0) (0, 0, 0) = (1, 0, 0)"
       "stored_row integer_numerics (translation 1 0 0) (1, 0, 0) = (2, 0, 0)"
    by (simp_all add: stored_row_def integer_numerics_def astype_int_def trunc_coord_def
          apply_translation)
  have prod: "np_dot integer_numerics (translation (1/2) 0 0) (translation (1/2) 0 0)
                = translation 1 0 0"
    by (simp add: integer_numerics_def translation_def)
  have s1: "streamlines (fst (Tractogram_apply_affine integer_numerics example_integer_tractogram
               (translation (1/2) 0 0) False)) = streamlines example_integer_tractogram"
    unfolding apply_affine_eager_points [OF len]
    by (simp add: example_integer_tractogram_def ArraySequence_init_def half)
  have len1: "ArraySequence_len (streamlines (fst (Tractogram_apply_affine integer_numerics
               example_integer_tractogram (translation (1/2) 0 0) False))) \<noteq> 0"
    unfolding s1 by (rule len)
  have s2: "seq_data (streamlines (fst (Tractogram_apply_affine integer_numerics
       (fst (Tractogram_apply_affine integer_numerics example_integer_tractogram
               (translation (1/2) 0 0) False))
       (translation (1/2) 0 0) False))) = [(0, 0, 0), (1, 0, 0)]"
    unfolding apply_affine_eager_points [OF len1] s1
    by (simp add: example_integer_tractogram_def ArraySequence_init_def half)
  have s3: "seq_data (streamlines (fst (Tractogram_apply_affine integer_numerics
       (Tractogram_copy example_integer_tractogram)
       (np_dot integer_numerics (translation (1/2) 0 0) (translation (1/2) 0 0)) False)))
     = [(1, 0, 0), (2, 0, 0)]"
    unfolding prod Tractogram_copy_def apply_affine_eager_points [OF len]
    by (simp add: example_integer_tractogram_def ArraySequence_init_def one)
  show ?thesis using prod s2 s3 by (simp add: translation_def det3_def)
qed

text \<open>
  Claim C3, amended. Let \<open>A\<close> be an affine (last row \<open>0 0 0 1\<close>) and suppose that no
  rounding occurs on the points at hand: for every row \<open>p\<close> of the buffer, the first call
  stores \<open>A\<close> applied to \<open>p\<close>, the second call stores \<open>B\<close> applied to that, and the single
  call with \<^verbatim>\<open>np.dot(B, A)\<close> stores the exact product applied to \<open>p\<close>. Then applying \<open>A\<close>
  and then \<open>B\<close> in place leaves the same streamlines as applying \<^verbatim>\<open>np.dot(B, A)\<close> once to
  a copy of the original; and when the three inversions return, the three calls return
  the receiver.
\<close>

theorem C3_apply_affine_composes:
  assumes aff: "is_affine A"
    and exA: "\<forall>p \<in> set (seq_data (streamlines t)). stored_row nx A p = apply_affine_pt A p"
    and exB: "\<forall>p \<in> set (seq_data (streamlines t)).
                stored_row nx B (apply_affine_pt A p) = apply_affine_pt B (apply_affine_pt A p)"
    and exBA: "\<forall>p \<in> set (seq_data (streamlines t)).
                stored_row nx (np_dot nx B A) p = apply_affine_pt (mat_mul B A) p"
  shows "streamlines
           (fst (Tractogram_apply_affine nx (fst (Tractogram_apply_affine nx t A False)) B False)) =
         streamlines (fst (Tractogram_apply_affine nx (Tractogram_copy t) (np_dot nx B A) False)) \<and>
         (np_linalg_inv nx A = Inr VA \<and> np_linalg_inv nx B = Inr VB \<and>
          np_linalg_inv nx (np_dot nx B A) = Inr VBA \<longrightarrow>
            snd (Tractogram_apply_affine nx t A False) = Inr RetSelf \<and>
            snd (Tractogram_apply_affine nx (fst (Tractogram_apply_affine nx t A False)) B False)
              = Inr RetSelf \<and>
            snd (Tractogram_apply_affine nx (Tractogram_copy t) (np_dot nx B A) False)
              = Inr RetSelf)"
proof (cases "ArraySequence_len (streamlines t) = 0")
  case True
  then show ?thesis
    by (simp add: apply_affine_eager_empty Tractogram_copy_def)
next
  case False
  note pA = apply_affine_eager_points [OF False, of nx A]
  have len1: "ArraySequence_len (streamlines (fst (Tractogram_apply_affine nx t A False))) \<noteq> 0"
    unfolding pA using False by (simp add: ArraySequence_len_def)
  note pB = apply_affine_eager_points [OF len1, of nx B]
  note pBA = apply_affine_eager_points [OF False, of nx "np_dot nx B A"]
  have m1: "map (stored_row nx B) (map (stored_row nx A) (seq_data (streamlines t)))
            = map (\<lambda>p. apply_affine_pt B (apply_affine_pt A p)) (seq_data (streamlines t))"
    using exA exB by simp
  have m2: "map (stored_row nx (np_dot nx B A)) (seq_data (streamlines t))
            = map (\<lambda>p. apply_affine_pt B (apply_affine_pt A p)) (seq_data (streamlines t))"
    using exBA by (simp add: apply_affine_pt_dot [OF aff])
  have pts: "streamlines
           (fst (Tractogram_apply_affine nx (fst (Tractogram_apply_affine nx t A False)) B False)) =
         streamlines (fst (Tractogram_apply_affine nx (Tractogram_copy t) (np_dot nx B A) False))"
    unfolding Tractogram_copy_def pB pBA
    unfolding pA using m1 m2 by simp
  have ret: "snd (Tractogram_apply_affine nx t A False) = Inr RetSelf \<and>
            snd (Tractogram_apply_affine nx (fst (Tractogram_apply_affine nx t A False)) B False)
              = Inr RetSelf \<and>
            snd (Tractogram_apply_affine nx (Tractogram_copy t) (np_dot nx B A) False)
              = Inr RetSelf"
    if h: "np_linalg_inv nx A = Inr VA \<and> np_linalg_inv nx B = Inr VB \<and>
          np_linalg_inv nx (np_dot nx B A) = Inr VBA"
  proof -
    from h have iA: "np_linalg_inv nx A = Inr VA" and iB: "np_linalg_inv nx B = Inr VB"
      and iBA: "np_linalg_inv nx (np_dot nx B A) = Inr VBA" by simp_all
    show ?thesis
      using apply_affine_eager_returns [OF iA, of t]
        apply_affine_eager_returns [OF iB, of "fst (Tractogram_apply_affine nx t A False)"]
        apply_affine_eager_returns [OF iBA, of "Tractogram_copy t"]
      by blast
  qed
  show ?thesis using pts ret by blast
qed

text \<open>
  A translation followed by a scaling, on three streamlines, with the operations that do
  not round.
\<close>

theorem C3_apply_affine_composes_witness:
  "is_affine (translation 1 2 3) \<and>
   map (stored_row exact_numerics (translation 1 2 3))
       (seq_data (streamlines example_tractogram))
     = map (apply_affine_pt (translation 1 2 3)) (seq_data (streamlines example_tractogram)) \<and>
   map (\<lambda>p. stored_row exact_numerics example_scaling (apply_affine_pt (translation 1 2 3) p))
       (seq_data (streamlines example_tractogram))
     = map (\<lambda>p. apply_affine_pt example_scaling (apply_affine_pt (translation 1 2 3) p))
         (seq_data (streamlines example_tractogram)) \<and>
   map (stored_row exact_numerics (np_dot exact_numerics example_scaling (translation 1 2 3)))
       (seq_data (streamlines example_tractogram))
     = map (apply_affine_pt (mat_mul example_scaling (translation 1 2 3)))
         (seq_data (streamlines example_tractogram)) \<and>
   seq_data (streamlines (fst (Tractogram_apply_affine exact_numerics
       (fst (Tractogram_apply_affine exact_numerics example_tractogram (translation 1 2 3) False))
       example_scaling False)))
     = [(2, 4, 6), (4, 4, 6), (2, 6, 6), (2, 8, 6), (2, 10, 6), (12, 14, 16)] \<and>
   streamlines (fst (Tractogram_apply_affine exact_numerics
       (fst (Tractogram_apply_affine exact_numerics example_tractogram (translation 1 2 3) False))
       example_scaling False)) =
   streamlines (fst (Tractogram_apply_affine exact_numerics (Tractogram_copy example_tractogram)
       (np_dot exact_numerics example_scaling (translation 1 2 3)) False))"
proof -
  have nd: "np_dot exact_numerics = mat_mul" by (simp add: exact_numerics_def)
  have a: "is_affine (translation 1 2 3)" by (simp add: translation_def)
  have b: "\<forall>p \<in> set (seq_data (streamlines example_tractogram)).
      stored_row exact_numerics (translation 1 2 3) p = apply_affine_pt (translation 1 2 3) p"
    by (simp add: exact_stored_row)
  have c: "\<forall>p \<in> set (seq_data (streamlines example_tractogram)).
      stored_row exact_numerics example_scaling (apply_affine_pt (translation 1 2 3) p)
        = apply_affine_pt example_scaling (apply_affine_pt (translation 1 2 3) p)"
    by (simp add: exact_stored_row)
  have d: "\<forall>p \<in> set (seq_data (streamlines example_tractogram)).
      stored_row exact_numerics (np_dot exact_numerics example_scaling (translation 1 2 3)) p
        = apply_affine_pt (mat_mul example_scaling (translation 1 2 3)) p"
    unfolding nd by (simp add: exact_stored_row)
  note inst = C3_apply_affine_composes [OF a b c d]
  have b': "map (stored_row exact_numerics (translation 1 2 3))
       (seq_data (streamlines example_tractogram))
     = map (apply_affine_pt (translation 1 2 3)) (seq_data (streamlines example_tractogram))"
    using b by simp
  have c': "map (\<lambda>p. stored_row exact_numerics example_scaling
                     (apply_affine_pt (translation 1 2 3) p))
       (seq_data (streamlines example_tractogram))
     = map (\<lambda>p. apply_affine_pt example_scaling (apply_affine_pt (translation 1 2 3) p))
         (seq_data (streamlines example_tractogram))"
    using c by simp
  have d': "map (stored_row exact_numerics
                  (np_dot exact_numerics example_scaling (translation 1 2 3)))
       (seq_data (streamlines example_tractogram))
     = map (apply_affine_pt (mat_mul example_scaling (translation 1 2 3)))
         (seq_data (streamlines example_tractogram))"
    using d by simp
  have len: "ArraySequence_len (streamlines example_tractogram) \<noteq> 0"
    by (simp add: example_tractogram_def ArraySequence_len_def ArraySequence_init_def)
  have e: "seq_data (streamlines (fst (Tractogram_apply_affine exact_numerics
       (Tractogram_copy example_tractogram)
       (np_dot exact_numerics example_scaling (translation 1 2 3)) False)))
     = [(2, 4, 6), (4, 4, 6), (2, 6, 6), (2, 8, 6), (2, 10, 6), (12, 14, 16)]"
    unfolding Tractogram_copy_def apply_affine_eager_points [OF len] nd
    by (simp add: exact_stored_row example_tractogram_def ArraySequence_init_def
          example_scaling_def translation_def)
  have f: "seq_data (streamlines (fst (Tractogram_apply_affine exact_numerics
       (fst (Tractogram_apply_affine exact_numerics example_tractogram (translation 1 2 3) False))
       example_scaling False)))
     = [(2, 4, 6), (4, 4, 6), (2, 6, 6), (2, 8, 6), (2, 10, 6), (12, 14, 16)]"
    using inst e by simp
  show ?thesis
    using a b' c' d' f inst by blast
qed

section \<open>World space\<close>

text \<open>
  Claim C7 as stated fails on a tractogram without streamlines: \<^verbatim>\<open>apply_affine\<close> returns
  before it touches the recorded affine, so an invertible affine other than the identity
  is still there after \<^verbatim>\<open>to_world\<close>.
\<close>

theorem C7_to_world_identity_counterexample:
  "det4 (affine_to_rasmm empty_translated) \<noteq> 0 \<and>
   get_affine_to_rasmm (fst (Tractogram_to_world exact_numerics empty_translated False))
     = translation 1 2 3 \<and>
   translation 1 2 3 \<noteq> eye4"
  by (simp add: empty_translated_def Tractogram_to_world_def Tractogram_apply_affine_def
        ArraySequence_len_def ArraySequence_init_def get_affine_to_rasmm_def
        translation_def eye4_def det3_def)

text \<open>
  Claim C7, amended. On an eager tractogram with at least one streamline and recorded
  affine \<open>W\<close>: when \<^verbatim>\<open>np.linalg.inv(W)\<close> returns \<open>V\<close>, \<^verbatim>\<open>to_world(lazy=False)\<close> returns
  the receiver and the recorded affine becomes \<^verbatim>\<open>np.dot(W, V)\<close>, which is the identity
  when \<open>V\<close> is the exact inverse of \<open>W\<close> and the product is computed without rounding;
  when \<^verbatim>\<open>np.linalg.inv(W)\<close> raises, the call raises the same exception and the recorded
  affine stays \<open>W\<close>. Without streamlines the call changes nothing and returns the
  receiver.
\<close>

theorem C7_to_world_identity:
  "(ArraySequence_len (streamlines t) \<noteq> 0 \<longrightarrow>
      (\<forall>V. np_linalg_inv nx (affine_to_rasmm t) = Inr V \<longrightarrow>
         snd (Tractogram_to_world nx t False) = Inr RetSelf \<and>
         get_affine_to_rasmm (fst (Tractogram_to_world nx t False))
           = np_dot nx (affine_to_rasmm t) V \<and>
         (mat_inverse (affine_to_rasmm t) = Inr V \<and>
          np_dot nx (affine_to_rasmm t) V = mat_mul (affine_to_rasmm t) V \<longrightarrow>
            get_affine_to_rasmm (fst (Tractogram_to_world nx t False)) = eye4)) \<and>
      (\<forall>e. np_linalg_inv nx (affine_to_rasmm t) = Inl e \<longrightarrow>
         snd (Tractogram_to_world nx t False) = Inl e \<and>
         get_affine_to_rasmm (fst (Tractogram_to_world nx t False)) = affine_to_rasmm t)) \<and>
   (ArraySequence_len (streamlines t) = 0 \<longrightarrow>
      Tractogram_to_world nx t False = (t, Inr RetSelf))"
proof (intro conjI impI allI)
  assume len: "ArraySequence_len (streamlines t) \<noteq> 0"
  {
    fix V assume inv: "np_linalg_inv nx (affine_to_rasmm t) = Inr V"
    note r = apply_affine_eager_result [OF len inv]
    show "snd (Tractogram_to_world nx t False) = Inr RetSelf"
      unfolding Tractogram_to_world_def r by simp
    show g: "get_affine_to_rasmm (fst (Tractogram_to_world nx t False))
           = np_dot nx (affine_to_rasmm t) V"
      unfolding Tractogram_to_world_def r by (simp add: get_affine_to_rasmm_def)
    assume ex: "mat_inverse (affine_to_rasmm t) = Inr V \<and>
          np_dot nx (affine_to_rasmm t) V = mat_mul (affine_to_rasmm t) V"
    then have "mat_mul (affine_to_rasmm t) V = eye4" by (simp add: inv_right)
    with ex g show "get_affine_to_rasmm (fst (Tractogram_to_world nx t False)) = eye4"
      by simp
  }
  {
    fix e assume inv: "np_linalg_inv nx (affine_to_rasmm t) = Inl e"
    note r = apply_affine_eager_raises [OF len inv]
    show "snd (Tractogram_to_world nx t False) = Inl e"
      unfolding Tractogram_to_world_def r by simp
    show "get_affine_to_rasmm (fst (Tractogram_to_world nx t False)) = affine_to_rasmm t"
      unfolding Tractogram_to_world_def r by (simp add: get_affine_to_rasmm_def)
  }
next
  assume "ArraySequence_len (streamlines t) = 0"
  then show "Tractogram_to_world nx t False = (t, Inr RetSelf)"
    by (simp add: Tractogram_to_world_def apply_affine_eager_empty)
qed

text \<open>
  A recorded translation: with exact operations the identity is left; when the inversion
  raises, the translation stays; without streamlines nothing changes.
\<close>

theorem C7_to_world_identity_witness:
  "ArraySequence_len (streamlines example_translated) \<noteq> 0 \<and>
   np_linalg_inv exact_numerics (affine_to_rasmm example_translated)
     = Inr (translation (- 1) (- 2) (- 3)) \<and>
   mat_inverse (affine_to_rasmm example_translated) = Inr (translation (- 1) (- 2) (- 3)) \<and>
   get_affine_to_rasmm (fst (Tractogram_to_world exact_numerics example_translated False)) = eye4 \<and>
   np_linalg_inv refusing_numerics (affine_to_rasmm example_translated) = Inl LinAlgError \<and>
   get_affine_to_rasmm (fst (Tractogram_to_world refusing_numerics example_translated False))
     = translation 1 2 3 \<and>
   ArraySequence_len (streamlines empty_translated) = 0 \<and>
   Tractogram_to_world exact_numerics empty_translated False = (empty_translated, Inr RetSelf)"
proof -
  have a: "ArraySequence_len (streamlines example_translated) \<noteq> 0"
    by (simp add: example_translated_def ArraySequence_len_def ArraySequence_init_def)
  have w: "affine_to_rasmm example_translated = translation 1 2 3"
    by (simp add: example_translated_def)
  have b: "mat_inverse (affine_to_rasmm example_translated) = Inr (translation (- 1) (- 2) (- 3))"
    unfolding w using inv_translation [of 1 2 3] by simp
  have b': "np_linalg_inv exact_numerics (affine_to_rasmm example_translated)
     = Inr (translation (- 1) (- 2) (- 3))"
    using b by (simp add: exact_numerics_def)
  have p: "np_dot exact_numerics (affine_to_rasmm example_translated) (translation (- 1) (- 2) (- 3))
           = mat_mul (affine_to_rasmm example_translated) (translation (- 1) (- 2) (- 3))"
    by (simp add: exact_numerics_def)
  have r: "np_linalg_inv refusing_numerics (affine_to_rasmm example_translated) = Inl LinAlgError"
    by (simp add: refusing_numerics_def)
  have c: "ArraySequence_len (streamlines empty_translated) = 0"
    by (simp add: empty_translated_def ArraySequence_len_def ArraySequence_init_def)
  have i: "get_affine_to_rasmm (fst (Tractogram_to_world exact_numerics example_translated False))
             = eye4"
    using C7_to_world_identity [of example_translated exact_numerics] a b b' p by blast
  have j: "get_affine_to_rasmm (fst (Tractogram_to_world refusing_numerics example_translated False))
             = translation 1 2 3"
    using C7_to_world_identity [of example_translated refusing_numerics] a r w by metis
  have k: "Tractogram_to_world exact_numerics empty_translated False
             = (empty_translated, Inr RetSelf)"
    using C7_to_world_identity [of empty_translated exact_numerics] c by blast
  show ?thesis
    using a b b' r c i j k by blast
qed

section \<open>Construction and the lazy tractogram\<close>

text \<open>
  The setters of \<^verbatim>\<open>LazyTractogram\<close> pass two positional arguments to \<^verbatim>\<open>LazyDict\<close>,
  which hands both to the builtin \<^verbatim>\<open>dict\<close>.
\<close>

lemma LazyDict_init_two: "LazyDict_init [a, b] = Inl TypeError"
  by (cases a) (simp_all add: LazyDict_init_def SliceableDataDict_init_def)

lemma LazyTractogram_init_raises: "LazyTractogram_init s dps dpp aff = Inl TypeError"
  by (simp add: LazyTractogram_init_def LazyDict_init_two)

text \<open>
  Claim C2 says that iterating \<^verbatim>\<open>LazyTractogram.from_tractogram(t)\<close> yields the items of
  \<open>t\<close>. In the code the first statement of \<^verbatim>\<open>from_tractogram\<close> constructs a
  \<^verbatim>\<open>LazyTractogram\<close>, and the construction raises TypeError for every \<open>t\<close>.
\<close>

theorem C2_from_tractogram_raises: "from_tractogram t = Inl TypeError"
  by (simp add: from_tractogram_def LazyTractogram_init_raises)

text \<open>
  Claim C4 says that constructing an eager \<^verbatim>\<open>Tractogram\<close> succeeds. In the code the
  setter of \<^verbatim>\<open>data_per_streamline\<close> uses the name \<^verbatim>\<open>DataPerStreamlineDict\<close>, which the
  module does not bind: the construction raises NameError for every input, whatever the
  class was meant to be.
\<close>

theorem C4_Tractogram_init_raises:
  "Tractogram_init DataPerStreamlineDict DataPerPointDict streamlines0 dps dpp affine
     = Inl NameError"
  by (simp add: Tractogram_init_def load_global_def module_names_def)

text \<open>
  Claim C5 says that \<^verbatim>\<open>apply_affine(A, lazy=True)\<close> on a lazy tractogram returns a new
  lazy tractogram. In the code the call copies the receiver first, the copy constructs a
  \<^verbatim>\<open>LazyTractogram\<close>, and the construction raises TypeError; the receiver is unchanged.
\<close>

theorem C5_lazy_apply_affine_raises:
  "LazyTractogram_apply_affine nx t A True = (t, Inl TypeError)"
  by (simp add: LazyTractogram_apply_affine_def LazyTractogram_copy_def
        LazyTractogram_init_raises)

text \<open>
  Claim C6. Indexing a lazy tractogram raises NotImplementedError and
  \<^verbatim>\<open>apply_affine\<close> with \<^verbatim>\<open>lazy=False\<close> raises ValueError, each at once and with the
  receiver left as it was.
\<close>

theorem C6_lazy_capability_errors:
  "LazyTractogram_getitem t idx = (t, Inl NotImplementedError) \<and>
   LazyTractogram_apply_affine nx t A False = (t, Inl ValueError)"
  by (simp add: LazyTractogram_getitem_def LazyTractogram_apply_affine_def)

lemma store_get_set:
  "store_set s k v = Inr s' \<Longrightarrow> store_get s' k = Inr v"
  by (auto simp: store_set_def store_get_def update_conv' split: if_splits)

text \<open>
  Claim C10. Assigning \<^verbatim>\<open>None\<close> under a key of a \<^verbatim>\<open>LazyDict\<close> is accepted, and reading
  that key afterwards raises TypeError, since the stored value is called.
\<close>

theorem C10_lazy_dict_none:
  assumes "hashable k"
  shows "\<exists>d'. LazyDict_setitem d k PyNone = Inr d' \<and> LazyDict_getitem d' k = Inl TypeError"
proof -
  have s: "store_set (lazy_store d) k PyNone = Inr (AList.update k PyNone (lazy_store d))"
    using assms by (simp add: store_set_def)
  have "LazyDict_setitem d k PyNone = Inr (d\<lparr>lazy_store := AList.update k PyNone (lazy_store d)\<rparr>)"
    by (simp add: LazyDict_setitem_def s)
  moreover have "LazyDict_getitem (d\<lparr>lazy_store := AList.update k PyNone (lazy_store d)\<rparr>) k
                 = Inl TypeError"
    by (simp add: LazyDict_getitem_def store_get_set [OF s])
  ultimately show ?thesis by blast
qed

theorem C10_lazy_dict_none_witness:
  "hashable (KStr ''scalars'') \<and>
   LazyDict_setitem \<lparr>lazy_store = []\<rparr> (KStr ''scalars'') (PyNone :: real list pyvalue)
     = Inr \<lparr>lazy_store = [(KStr ''scalars'', PyNone)]\<rparr> \<and>
   LazyDict_getitem \<lparr>lazy_store = [(KStr ''scalars'', PyNone :: real list pyvalue)]\<rparr>
     (KStr ''scalars'') = Inl TypeError"
  using C10_lazy_dict_none [of "KStr ''scalars''" "\<lparr>lazy_store = []\<rparr> :: real list LazyDict"]
  by (simp add: LazyDict_setitem_def store_set_def)

section \<open>Assignment and lookup in the data dictionaries\<close>






text \<open>
  The loop of \<^verbatim>\<open>__getitem__\<close> on a \<^verbatim>\<open>PerArrayDict\<close>: when every value can be
  re-indexed, every key is written once, in order; the first value that cannot be ends the
  loop with its exception.
\<close>

lemma update_fresh:
  "k \<notin> fst ` set al \<Longrightarrow> AList.update k v al = al @ [(k, v)]"
  by (induction al) auto

lemma setitem_fresh:
  assumes "hashable k" and "k \<notin> fst ` set acc" and "reindexed idx v = Inr w"
  shows "(case np_getitem v idx of
            Inl e \<Rightarrow> Inl e
          | Inr u \<Rightarrow> (case PerArrayDict_setitem \<lparr>n_elements = None, store = acc\<rparr> k u of
                       Inl e \<Rightarrow> Inl e
                     | Inr d \<Rightarrow> f d))
         = f \<lparr>n_elements = None, store = acc @ [(k, w)]\<rparr>"
  using assms
  by (auto simp: reindexed_def PerArrayDict_setitem_def store_set_def update_fresh
           split: sum.splits)

lemma setitem_raises:
  assumes "reindexed idx v = Inl e'"
  shows "(case np_getitem v idx of
            Inl e \<Rightarrow> Inl e
          | Inr u \<Rightarrow> (case PerArrayDict_setitem \<lparr>n_elements = None, store = acc\<rparr> k u of
                       Inl e \<Rightarrow> Inl e
                     | Inr d \<Rightarrow> f d))
         = Inl e'"
  using assms
  by (auto simp: reindexed_def PerArrayDict_setitem_def split: sum.splits)

lemma reindex_all:
  assumes "distinct (map fst s)" and "list_all (\<lambda>(k, v). hashable k) s"
    and "fst ` set s \<inter> fst ` set acc = {}"
    and "map (reindexed idx) (map snd s) = map Inr ws"
  shows "reindex_items PerArrayDict_setitem np_getitem idx s \<lparr>n_elements = None, store = acc\<rparr>
         = Inr \<lparr>n_elements = None, store = acc @ zip (map fst s) ws\<rparr>"
  using assms
proof (induction s arbitrary: acc ws)
  case Nil
  then show ?case by simp
next
  case (Cons kv s)
  obtain k v where kv: "kv = (k, v)" by (cases kv)
  from Cons.prems(4) obtain w ws' where ws: "ws = w # ws'"
      and w: "reindexed idx v = Inr w"
      and rest: "map (reindexed idx) (map snd s) = map Inr ws'"
    unfolding kv by (cases ws) auto
  have hk: "hashable k" and fresh: "k \<notin> fst ` set acc"
    using Cons.prems(2,3) unfolding kv by auto
  have d': "distinct (map fst s)" and h': "list_all (\<lambda>(k, v). hashable k) s"
    using Cons.prems(1,2) by auto
  have disj: "fst ` set s \<inter> fst ` set (acc @ [(k, w)]) = {}"
    using Cons.prems(1,3) unfolding kv by auto
  have "reindex_items PerArrayDict_setitem np_getitem idx (kv # s)
          \<lparr>n_elements = None, store = acc\<rparr>
        = reindex_items PerArrayDict_setitem np_getitem idx s
            \<lparr>n_elements = None, store = acc @ [(k, w)]\<rparr>"
    unfolding kv reindex_items.simps by (rule setitem_fresh [OF hk fresh w])
  also have "\<dots> = Inr \<lparr>n_elements = None, store = (acc @ [(k, w)]) @ zip (map fst s) ws'\<rparr>"
    by (rule Cons.IH [OF d' h' disj rest])
  finally show ?case unfolding kv ws by simp
qed

lemma reindex_stops:
  assumes "distinct (map fst pre)" and "list_all (\<lambda>(k, v). hashable k) pre"
    and "fst ` set pre \<inter> fst ` set acc = {}"
    and "map (reindexed idx) (map snd pre) = map Inr ws"
    and "reindexed idx x = Inl e'"
  shows "reindex_items PerArrayDict_setitem np_getitem idx (pre @ (k, x) # post)
           \<lparr>n_elements = None, store = acc\<rparr> = Inl e'"
  using assms
proof (induction pre arbitrary: acc ws)
  case Nil
  show ?case
    unfolding append_Nil reindex_items.simps by (rule setitem_raises [OF Nil.prems(5)])
next
  case (Cons kv pre)
  obtain k0 v where kv: "kv = (k0, v)" by (cases kv)
  from Cons.prems(4) obtain w ws' where ws: "ws = w # ws'"
      and w: "reindexed idx v = Inr w"
      and rest: "map (reindexed idx) (map snd pre) = map Inr ws'"
    unfolding kv by (cases ws) auto
  have hk: "hashable k0" and fresh: "k0 \<notin> fst ` set acc"
    using Cons.prems(2,3) unfolding kv by auto
  have d': "distinct (map fst pre)" and h': "list_all (\<lambda>(k, v). hashable k) pre"
    using Cons.prems(1,2) by auto
  have disj: "fst ` set pre \<inter> fst ` set (acc @ [(k0, w)]) = {}"
    using Cons.prems(1,3) unfolding kv by auto
  have "reindex_items PerArrayDict_setitem np_getitem idx ((kv # pre) @ (k, x) # post)
          \<lparr>n_elements = None, store = acc\<rparr>
        = reindex_items PerArrayDict_setitem np_getitem idx (pre @ (k, x) # post)
            \<lparr>n_elements = None, store = acc @ [(k0, w)]\<rparr>"
    unfolding kv append_Cons reindex_items.simps by (rule setitem_fresh [OF hk fresh w])
  also have "\<dots> = Inl e'"
    by (rule Cons.IH [OF d' h' disj rest Cons.prems(5)])
  finally show ?case .
qed

lemma getitem_unfold:
  "PerArrayDict_getitem \<lparr>n_elements = n, store = s\<rparr> key =
     (case store_get s key of
        Inr v \<Rightarrow> Inr (Stored v)
      | Inl e0 \<Rightarrow>
         (case reindex_items PerArrayDict_setitem np_getitem key s
                 \<lparr>n_elements = None, store = []\<rparr> of
            Inr d \<Rightarrow> Inr (Sliced d)
          | Inl e \<Rightarrow>
             (if e = TypeError
              then (case store_get s key of Inr v \<Rightarrow> Inr (Stored v) | Inl e1 \<Rightarrow> Inl e1)
              else Inl e)))"
  by (simp add: PerArrayDict_getitem_def SliceableDataDict_getitem_def PerArrayDict_init_def)

lemma reindexed_row:
  assumes "shape v = [P, M]" and "list_all is_num (flat v)" and "0 \<le> i" and "i < int P"
    and "0 < M"
  shows "reindexed (KInt i) v =
           Inr \<lparr>shape = [M, 1], dtype_object = False, flat = take M (drop (nat i * M) (flat v))\<rparr>"
proof -
  have num: "list_all is_num (take M (drop (nat i * M) (flat v)))"
    using assms(2) by (auto simp: list_all_iff dest: in_set_takeD in_set_dropD)
  show ?thesis
    using assms num
    by (simp add: reindexed_def PerArrayDict_value_def asarray_list_def ndim_def len_array_def
          Let_def)
qed

text \<open>
  Claim C9 as stated fails when the key is both stored and a valid index: under the stored
  key \<open>1\<close>, whose re-indexing would succeed, \<^verbatim>\<open>__getitem__\<close> returns the stored array and
  not a re-indexed dictionary.
\<close>

theorem C9_getitem_order_counterexample:
  "store_get (store example_int_keyed) (KInt 1) = Inr example_column \<and>
   reindex_items PerArrayDict_setitem np_getitem (KInt 1) (store example_int_keyed)
       (PerArrayDict_init None)
     = Inr \<lparr>n_elements = None,
            store = [(KInt 1, \<lparr>shape = [1, 1], dtype_object = False, flat = [Num 20]\<rparr>)]\<rparr> \<and>
   PerArrayDict_getitem example_int_keyed (KInt 1) = Inr (Stored example_column)"
  by (simp add: example_int_keyed_def example_column_def store_get_def
        PerArrayDict_getitem_def SliceableDataDict_getitem_def PerArrayDict_init_def
        PerArrayDict_setitem_def PerArrayDict_value_def asarray_list_def ndim_def
        len_array_def store_set_def)

text \<open>
  Claim C9, amended, for \<^verbatim>\<open>PerArrayDict\<close>, the class of the module that inherits
  \<^verbatim>\<open>SliceableDataDict.__getitem__\<close> (\<^verbatim>\<open>LazyDict\<close> overrides it). The key is looked up
  in the store first, and the stored value is returned when that succeeds. Only when the
  lookup raises is the key applied as an index to every stored value: when every value
  can be re-indexed, the result is a new \<^verbatim>\<open>PerArrayDict\<close> without element count that
  holds, under every key of the store and in the same order, the re-indexed value. The
  first value, in the order of the store, whose re-indexing raises decides otherwise:
  with TypeError the error of the key lookup is raised, and any other exception is raised
  as it is. Re-indexing a two-dimensional array of numbers by a valid integer position
  gives that row as a column.
\<close>

theorem C9_getitem_order:
  assumes wf: "wf_store s"
  shows "(store_get s key = Inr v \<longrightarrow>
            PerArrayDict_getitem \<lparr>n_elements = n, store = s\<rparr> key = Inr (Stored v)) \<and>
         (store_get s key = Inl e \<and> map (reindexed key) (map snd s) = map Inr ws \<longrightarrow>
            PerArrayDict_getitem \<lparr>n_elements = n, store = s\<rparr> key =
              Inr (Sliced \<lparr>n_elements = None, store = zip (map fst s) ws\<rparr>)) \<and>
         (store_get s key = Inl e \<and> s = pre @ (k, x) # post \<and>
          map (reindexed key) (map snd pre) = map Inr ws \<and> reindexed key x = Inl TypeError \<longrightarrow>
            PerArrayDict_getitem \<lparr>n_elements = n, store = s\<rparr> key = Inl e) \<and>
         (store_get s key = Inl e \<and> s = pre @ (k, x) # post \<and>
          map (reindexed key) (map snd pre) = map Inr ws \<and> reindexed key x = Inl e' \<and>
          e' \<noteq> TypeError \<longrightarrow>
            PerArrayDict_getitem \<lparr>n_elements = n, store = s\<rparr> key = Inl e') \<and>
         (shape x = [P, M] \<and> list_all is_num (flat x) \<and> 0 \<le> i \<and> i < int P \<and> 0 < M \<longrightarrow>
            reindexed (KInt i) x =
              Inr \<lparr>shape = [M, 1], dtype_object = False,
                   flat = take M (drop (nat i * M) (flat x))\<rparr>)"
proof (intro conjI impI)
  assume "store_get s key = Inr v"
  then show "PerArrayDict_getitem \<lparr>n_elements = n, store = s\<rparr> key = Inr (Stored v)"
    by (simp add: getitem_unfold)
next
  assume h: "store_get s key = Inl e \<and> map (reindexed key) (map snd s) = map Inr ws"
  have "reindex_items PerArrayDict_setitem np_getitem key s \<lparr>n_elements = None, store = []\<rparr>
        = Inr \<lparr>n_elements = None, store = [] @ zip (map fst s) ws\<rparr>"
    using wf h by (intro reindex_all) (simp_all add: wf_store_def)
  then show "PerArrayDict_getitem \<lparr>n_elements = n, store = s\<rparr> key =
              Inr (Sliced \<lparr>n_elements = None, store = zip (map fst s) ws\<rparr>)"
    using h by (simp add: getitem_unfold)
next
  assume h: "store_get s key = Inl e \<and> s = pre @ (k, x) # post \<and>
          map (reindexed key) (map snd pre) = map Inr ws \<and> reindexed key x = Inl TypeError"
  then have sg: "store_get s key = Inl e" and s: "s = pre @ (k, x) # post" by blast+
  have "reindex_items PerArrayDict_setitem np_getitem key (pre @ (k, x) # post)
          \<lparr>n_elements = None, store = []\<rparr> = Inl TypeError"
    using wf h by (intro reindex_stops [where ws = ws]) (auto simp: wf_store_def)
  then have r: "reindex_items PerArrayDict_setitem np_getitem key s
          \<lparr>n_elements = None, store = []\<rparr> = Inl TypeError"
    unfolding s .
  show "PerArrayDict_getitem \<lparr>n_elements = n, store = s\<rparr> key = Inl e"
    by (simp add: getitem_unfold sg r)
next
  assume h: "store_get s key = Inl e \<and> s = pre @ (k, x) # post \<and>
          map (reindexed key) (map snd pre) = map Inr ws \<and> reindexed key x = Inl e' \<and>
          e' \<noteq> TypeError"
  then have sg: "store_get s key = Inl e" and s: "s = pre @ (k, x) # post"
    and ne: "e' \<noteq> TypeError" by blast+
  have "reindex_items PerArrayDict_setitem np_getitem key (pre @ (k, x) # post)
          \<lparr>n_elements = None, store = []\<rparr> = Inl e'"
    using wf h by (intro reindex_stops [where ws = ws]) (auto simp: wf_store_def)
  then have r: "reindex_items PerArrayDict_setitem np_getitem key s
          \<lparr>n_elements = None, store = []\<rparr> = Inl e'"
    unfolding s .
  show "PerArrayDict_getitem \<lparr>n_elements = n, store = s\<rparr> key = Inl e'"
    by (simp add: getitem_unfold sg r ne)
next
  assume "shape x = [P, M] \<and> list_all is_num (flat x) \<and> 0 \<le> i \<and> i < int P \<and> 0 < M"
  then show "reindexed (KInt i) x =
              Inr \<lparr>shape = [M, 1], dtype_object = False,
                   flat = take M (drop (nat i * M) (flat x))\<rparr>"
    by (simp add: reindexed_row)
qed

text \<open>
  A dictionary with two entries, read by a stored name and by position; a dictionary
  whose second value cannot be iterated after indexing; a dictionary whose second value
  is too short.
\<close>

theorem C9_getitem_order_witness:
  "wf_store (store example_named) \<and>
   store_get (store example_named) (KStr ''ends'') = Inr example_pairs \<and>
   PerArrayDict_getitem example_named (KStr ''ends'') = Inr (Stored example_pairs) \<and>
   store_get (store example_named) (KInt 1) = Inl KeyError \<and>
   map (reindexed (KInt 1)) (map snd (store example_named))
     = map Inr [\<lparr>shape = [1, 1], dtype_object = False, flat = [Num 20]\<rparr>,
                \<lparr>shape = [2, 1], dtype_object = False, flat = [Num 3, Num 4]\<rparr>] \<and>
   PerArrayDict_getitem example_named (KInt 1)
     = Inr (Sliced \<lparr>n_elements = None,
            store = [(KStr ''mean'', \<lparr>shape = [1, 1], dtype_object = False, flat = [Num 20]\<rparr>),
                     (KStr ''ends'',
                      \<lparr>shape = [2, 1], dtype_object = False, flat = [Num 3, Num 4]\<rparr>)]\<rparr>) \<and>
   wf_store (store example_with_flat) \<and>
   reindexed (KInt 1) \<lparr>shape = [3], dtype_object = False, flat = [Num 10, Num 20, Num 30]\<rparr>
     = Inl TypeError \<and>
   PerArrayDict_getitem example_with_flat (KInt 1) = Inl KeyError \<and>
   wf_store (store example_with_short) \<and>
   reindexed (KInt 2) \<lparr>shape = [2, 1], dtype_object = False, flat = [Num 1, Num 2]\<rparr>
     = Inl IndexError \<and>
   PerArrayDict_getitem example_with_short (KInt 2) = Inl IndexError \<and>
   reindexed (KInt 1) example_pairs
     = Inr \<lparr>shape = [2, 1], dtype_object = False, flat = [Num 3, Num 4]\<rparr>"
proof -
  let ?c1 = "\<lparr>shape = [1, 1], dtype_object = False, flat = [Num 20]\<rparr>"
  let ?c2 = "\<lparr>shape = [2, 1], dtype_object = False, flat = [Num 3, Num 4]\<rparr>"
  let ?c3 = "\<lparr>shape = [1, 1], dtype_object = False, flat = [Num 30]\<rparr>"
  let ?fl = "\<lparr>shape = [3], dtype_object = False, flat = [Num 10, Num 20, Num 30]\<rparr>"
  let ?sh = "\<lparr>shape = [2, 1], dtype_object = False, flat = [Num 1, Num 2]\<rparr>"
  have w1: "wf_store (store example_named)"
    by (simp add: wf_store_def example_named_def)
  have w2: "wf_store (store example_with_flat)"
    by (simp add: wf_store_def example_with_flat_def)
  have w3: "wf_store (store example_with_short)"
    by (simp add: wf_store_def example_with_short_def)
  have n1: "example_named = \<lparr>n_elements = Some 3, store = store example_named\<rparr>"
    by (simp add: example_named_def)
  have n2: "example_with_flat = \<lparr>n_elements = None, store = store example_with_flat\<rparr>"
    by (simp add: example_with_flat_def)
  have n3: "example_with_short = \<lparr>n_elements = None, store = store example_with_short\<rparr>"
    by (simp add: example_with_short_def)
  have g1: "store_get (store example_named) (KStr ''ends'') = Inr example_pairs"
    by (simp add: example_named_def store_get_def)
  have g2: "store_get (store example_named) (KInt 1) = Inl KeyError"
    by (simp add: example_named_def store_get_def)
  have g3: "store_get (store example_with_flat) (KInt 1) = Inl KeyError"
    by (simp add: example_with_flat_def store_get_def)
  have g4: "store_get (store example_with_short) (KInt 2) = Inl KeyError"
    by (simp add: example_with_short_def store_get_def)
  have r1: "reindexed (KInt 1) example_column = Inr ?c1"
    by (simp add: reindexed_def example_column_def PerArrayDict_value_def asarray_list_def
          ndim_def len_array_def)
  have r2: "reindexed (KInt 1) example_pairs = Inr ?c2"
    using C9_getitem_order [OF w1, THEN conjunct2, THEN conjunct2, THEN conjunct2,
            THEN conjunct2, rule_format, of example_pairs 3 2 1]
    by (simp add: example_pairs_def)
  have r3: "reindexed (KInt 2) example_column = Inr ?c3"
    by (simp add: reindexed_def example_column_def PerArrayDict_value_def asarray_list_def
          ndim_def len_array_def)
  have r4: "reindexed (KInt 1) ?fl = Inl TypeError"
    by (simp add: reindexed_def PerArrayDict_value_def asarray_list_def)
  have r5: "reindexed (KInt 2) ?sh = Inl IndexError"
    by (simp add: reindexed_def)
  have m1: "map (reindexed (KInt 1)) (map snd (store example_named)) = map Inr [?c1, ?c2]"
    by (simp add: example_named_def r1 r2)
  have s2: "store example_with_flat = [(KStr ''mean'', example_column)] @ (KStr ''flat'', ?fl) # []"
    by (simp add: example_with_flat_def)
  have s3: "store example_with_short
              = [(KStr ''mean'', example_column)] @ (KStr ''short'', ?sh) # []"
    by (simp add: example_with_short_def)
  have p2: "map (reindexed (KInt 1)) (map snd [(KStr ''mean'', example_column)]) = map Inr [?c1]"
    by (simp add: r1)
  have p3: "map (reindexed (KInt 2)) (map snd [(KStr ''mean'', example_column)]) = map Inr [?c3]"
    by (simp add: r3)
  have a: "PerArrayDict_getitem example_named (KStr ''ends'') = Inr (Stored example_pairs)"
    using C9_getitem_order [OF w1, THEN conjunct1, rule_format, OF g1, of "Some 3"] n1 by simp
  have b: "PerArrayDict_getitem example_named (KInt 1)
     = Inr (Sliced \<lparr>n_elements = None, store = [(KStr ''mean'', ?c1), (KStr ''ends'', ?c2)]\<rparr>)"
    using C9_getitem_order [OF w1, THEN conjunct2, THEN conjunct1, rule_format,
            OF conjI [OF g2 m1], of "Some 3"] n1
    by (simp add: example_named_def)
  have c: "PerArrayDict_getitem example_with_flat (KInt 1) = Inl KeyError"
    using C9_getitem_order [OF w2, THEN conjunct2, THEN conjunct2, THEN conjunct1, rule_format,
            OF conjI [OF g3 conjI [OF s2 conjI [OF p2 r4]]], of None] n2
    by simp
  have ne: "IndexError \<noteq> TypeError" by simp
  have d: "PerArrayDict_getitem example_with_short (KInt 2) = Inl IndexError"
    using C9_getitem_order [OF w3, THEN conjunct2, THEN conjunct2, THEN conjunct2,
            THEN conjunct1, rule_format,
            OF conjI [OF g4 conjI [OF s3 conjI [OF p3 conjI [OF r5 ne]]]], of None] n3
    by simp
  show ?thesis
    using w1 g1 a g2 m1 b w2 r4 c w3 r5 d r2 by blast
qed

end
